theory Spec2Isabelle
  imports Main "HOL-Library.Sublist"
begin

section \<open>Processing stages\<close>

text \<open>
  Modelled from the spec: the module \<open>ccf.processing_stage\<close> is imported by the submitter
  but is not among the source files. The spec gives the enumeration in this order, totally
  ordered by declaration position. \<open>stage_value\<close> is the position, \<open>stage_ge\<close> and
  \<open>stage_gt\<close> are the comparisons \<open>>=\<close> and \<open>>\<close> the submitter uses, and \<open>stage_name\<close>
  is the \<open>.name\<close> attribute of a member.
\<close>

datatype ProcessingStage =
  PREPARE_SCRIPTS | GET_DATA | PROCESS_DATA | CLEAN_DATA | PUT_DATA | CHECK_DATA

fun stage_value :: "ProcessingStage \<Rightarrow> nat" where
  "stage_value PREPARE_SCRIPTS = 0"
| "stage_value GET_DATA = 1"
| "stage_value PROCESS_DATA = 2"
| "stage_value CLEAN_DATA = 3"
| "stage_value PUT_DATA = 4"
| "stage_value CHECK_DATA = 5"

definition stage_ge :: "ProcessingStage \<Rightarrow> ProcessingStage \<Rightarrow> bool" where
  "stage_ge a b = (stage_value b \<le> stage_value a)"

definition stage_gt :: "ProcessingStage \<Rightarrow> ProcessingStage \<Rightarrow> bool" where
  "stage_gt a b = (stage_value b < stage_value a)"

fun stage_name :: "ProcessingStage \<Rightarrow> string" where
  "stage_name PREPARE_SCRIPTS = ''PREPARE_SCRIPTS''"
| "stage_name GET_DATA = ''GET_DATA''"
| "stage_name PROCESS_DATA = ''PROCESS_DATA''"
| "stage_name CLEAN_DATA = ''CLEAN_DATA''"
| "stage_name PUT_DATA = ''PUT_DATA''"
| "stage_name CHECK_DATA = ''CHECK_DATA''"

section \<open>The submitter, its surroundings and its errors\<close>

text \<open>
  The attributes of a \<open>OneSubjectJobSubmitter\<close> instance. The caller sets them through the
  setters before \<open>submit_jobs\<close> runs; \<open>scan\<close> starts as \<open>None\<close>, and so does the memo
  \<open>_working_directory_name_prefix\<close> (a leading underscore is not an Isabelle name, hence
  \<open>priv_\<close>). \<open>PIPELINE_NAME\<close> is the abstract property a subclass supplies, and
  \<open>SCRATCH_PROCESSING_DIR\<close> the class attribute of the structural subclass.
\<close>

record submitter =
  build_home :: string
  xnat_pbs_jobs_home :: string
  log_dir :: string
  scan :: "string option"
  priv_working_directory_name_prefix :: "string option"
  PIPELINE_NAME :: string
  username :: string
  password :: string
  server :: string
  project :: string
  subject :: string
  session :: string
  classifier :: string
  clean_output_resource_first :: bool
  put_server :: string
  walltime_limit_hours :: string
  vmem_limit_gbs :: string
  output_resource_suffix :: string
  use_prescan_normalized :: bool
  SCRATCH_PROCESSING_DIR :: string

text \<open>
  What a run can raise. Every exception of the source is a value; none of them is caught by
  the submitter, except \<open>FileNotFoundError\<close> around \<open>os.remove\<close>.
\<close>

datatype error =
    CalledProcessError int string
  | FileNotFoundError
  | FileExistsError
  | IsADirectoryError
  | NotADirectoryError
  | SameFileError
  | MissingEnvironmentVariable string
  | DeleteResourceFailed
  | AttributeError string

text \<open>
  The file system is a tree of directories and regular files. A node is found by its path:
  whether the path starts at the root, and its components, where empty components (doubled
  and trailing separators) do not count. The map holds the nodes below the root and below
  the current directory; these two always exist. A regular file carries what was written to
  it, one entry per \<open>write\<close> call in order (its bytes are the concatenation), and its
  permission bits. The components \<open>.\<close> and \<open>..\<close>, links and access rights are not
  interpreted.
\<close>

datatype node = File "string list" nat | Directory

type_synonym path = "bool \<times> string list"

text \<open>
  The trace records every external call in order: a shell command run through
  \<open>subprocess.run\<close> with its return code and standard output, and a call of
  \<open>delete_resource\<close> with its arguments.
\<close>

datatype event = Shell string int string | DeleteResource "string list"

record state =
  self :: submitter
  fs :: "path \<rightharpoonup> node"
  trace :: "event list"
  clock :: int

text \<open>
  The surroundings of a run, which the submitter reads and never changes: the process
  environment, the answer of the operating system to a shell command (it may depend on
  everything run before), and the helpers of \<open>utils\<close> that are imported but are not among
  the source files, each taken as a parameter: \<open>str_utils.remove_ending_new_lines\<close>,
  \<open>str_utils.get_server_name\<close>, the text that \<open>file_utils.wl\<close> writes for a line, and whether
  \<open>delete_resource.delete_resource\<close> succeeds. \<open>new_file_mode\<close> is the permission a newly
  created file gets.
\<close>

record env =
  environ :: "string \<rightharpoonup> string"
  shell :: "event list \<Rightarrow> string \<Rightarrow> int \<times> string"
  remove_ending_new_lines :: "string \<Rightarrow> string"
  get_server_name :: "string \<Rightarrow> string"
  wl :: "string \<Rightarrow> string"
  delete_resource :: "event list \<Rightarrow> string list \<Rightarrow> bool"
  new_file_mode :: nat

section \<open>Statements and expressions with state and exceptions\<close>

text \<open>
  An action takes the state and returns a value or the exception raised, with the state
  reached. \<open>bnd\<close> runs the next statement only after a normal return; \<open>seq\<close> runs
  statements in order; \<open>cat\<close> evaluates the operands of a string concatenation from left
  to right.
\<close>

type_synonym 'a action = "state \<Rightarrow> (error + 'a) \<times> state"

definition ret :: "'a \<Rightarrow> 'a action" where
  "ret x st = (Inr x, st)"

definition throw :: "error \<Rightarrow> 'a action" where
  "throw e st = (Inl e, st)"

definition bnd :: "'a action \<Rightarrow> ('a \<Rightarrow> 'b action) \<Rightarrow> 'b action" where
  "bnd m f st = (case m st of (Inl e, st') \<Rightarrow> (Inl e, st') | (Inr x, st') \<Rightarrow> f x st')"

fun seq :: "unit action list \<Rightarrow> unit action" where
  "seq [] = ret ()"
| "seq (a # as) = bnd a (\<lambda>_. seq as)"

definition lit :: "string \<Rightarrow> string action" where
  "lit s = ret s"

definition attr :: "(submitter \<Rightarrow> 'a) \<Rightarrow> 'a action" where
  "attr f st = (Inr (f (self st)), st)"

fun cat :: "string action list \<Rightarrow> string action" where
  "cat [] = ret []"
| "cat (e # es) = bnd e (\<lambda>x. bnd (cat es) (\<lambda>y. ret (x @ y)))"

text \<open>
  Python's truth test on an optional string: \<open>None\<close> and the empty string are false.
  \<open>if_truthy v f g\<close> is \<open>f\<close> of the string when \<open>v\<close> is true and \<open>g\<close> otherwise.
\<close>

definition truthy :: "string option \<Rightarrow> bool" where
  "truthy v = (case v of None \<Rightarrow> False | Some s \<Rightarrow> s \<noteq> [])"

definition if_truthy :: "string option \<Rightarrow> (string \<Rightarrow> 'a) \<Rightarrow> 'a \<Rightarrow> 'a" where
  "if_truthy v f g = (case v of None \<Rightarrow> g | Some s \<Rightarrow> if s = [] then g else f s)"

text \<open>The truth test on an optional list: \<open>None\<close> and the empty list are false.\<close>

definition truthy_list :: "string list option \<Rightarrow> bool" where
  "truthy_list v = (case v of None \<Rightarrow> False | Some xs \<Rightarrow> xs \<noteq> [])"

definition if_scan :: "(string \<Rightarrow> 'a action) \<Rightarrow> 'a action \<Rightarrow> 'a action" where
  "if_scan f g st = if_truthy (scan (self st)) f g st"

definition os_sep :: string where
  "os_sep = ''/''"

definition os_linesep :: string where
  "os_linesep = ''\<newline>''"

definition backslash :: string where
  "backslash = [CHR 0x5C]"

subsection \<open>Decimal text of an integer\<close>

definition digit_char :: "nat \<Rightarrow> char" where
  "digit_char d = char_of (48 + d)"

function str_nat :: "nat \<Rightarrow> string" where
  "str_nat n = (if n < 10 then [digit_char n] else str_nat (n div 10) @ [digit_char (n mod 10)])"
  by pat_completeness auto
termination
  by (relation "measure id") auto

definition str_int :: "int \<Rightarrow> string" where
  "str_int i = (if i < 0 then ''-'' @ str_nat (nat (- i)) else str_nat (nat i))"

subsection \<open>Files, processes and the environment\<close>

text \<open>
  \<open>split_sep\<close> cuts a string at every separator, \<open>path_of\<close> is the path a string
  spells, and \<open>ancestors\<close> are the directories above it, the outermost first.
\<close>

fun split_sep :: "string \<Rightarrow> string list" where
  "split_sep [] = [[]]"
| "split_sep (c # cs) =
     (if c = CHR ''/'' then [] # split_sep cs
      else (case split_sep cs of [] \<Rightarrow> [[c]] | x # xs \<Rightarrow> (c # x) # xs))"

definition path_of :: "string \<Rightarrow> path" where
  "path_of p = (take 1 p = ''/'', filter (\<lambda>x. x \<noteq> []) (split_sep p))"

definition ancestors :: "path \<Rightarrow> path list" where
  "ancestors k = map (\<lambda>i. (fst k, take i (snd k))) [1..<length (snd k)]"

definition node_at :: "(path \<rightharpoonup> node) \<Rightarrow> path \<Rightarrow> node option" where
  "node_at f k = (if snd k = [] then Some Directory else f k)"

text \<open>
  What stops the operating system on the way to the last component of a path: the empty
  string names nothing, a missing directory gives \<open>FileNotFoundError\<close> and a regular file
  in the place of a directory gives \<open>NotADirectoryError\<close>.
\<close>

definition blocked :: "(path \<rightharpoonup> node) \<Rightarrow> string \<Rightarrow> error option" where
  "blocked f p =
     (if p = [] then Some FileNotFoundError
      else case find (\<lambda>a. f a \<noteq> Some Directory) (ancestors (path_of p)) of
             None \<Rightarrow> None
           | Some a \<Rightarrow> (case f a of
                          None \<Rightarrow> Some FileNotFoundError
                        | Some n \<Rightarrow> Some NotADirectoryError))"

definition os_remove :: "string \<Rightarrow> unit action" where
  "os_remove p st =
     (case blocked (fs st) p of
        Some e \<Rightarrow> (Inl e, st)
      | None \<Rightarrow>
          (case node_at (fs st) (path_of p) of
             None \<Rightarrow> (Inl FileNotFoundError, st)
           | Some Directory \<Rightarrow> (Inl IsADirectoryError, st)
           | Some (File c m) \<Rightarrow> (Inr (), st\<lparr>fs := (fs st)(path_of p := None)\<rparr>)))"

definition suppress_FileNotFoundError :: "unit action \<Rightarrow> unit action" where
  "suppress_FileNotFoundError a st =
     (case a st of
        (Inl FileNotFoundError, st') \<Rightarrow> (Inr (), st')
      | r \<Rightarrow> r)"

text \<open>
  \<open>open(name, 'w')\<close>: the directory of the file has to exist; the file is created or
  truncated; the handle is the name it was opened by.
\<close>

definition open_w :: "env \<Rightarrow> string \<Rightarrow> string action" where
  "open_w env p st =
     (case blocked (fs st) p of
        Some e \<Rightarrow> (Inl e, st)
      | None \<Rightarrow>
          (case node_at (fs st) (path_of p) of
             None \<Rightarrow> (Inr p, st\<lparr>fs := (fs st)(path_of p \<mapsto> File [] (new_file_mode env))\<rparr>)
           | Some Directory \<Rightarrow> (Inl IsADirectoryError, st)
           | Some (File c m) \<Rightarrow> (Inr p, st\<lparr>fs := (fs st)(path_of p \<mapsto> File [] m)\<rparr>)))"

text \<open>
  A write through a handle appends to the file the handle was opened on. The submitter
  removes no file between opening and closing it, so the handle always finds its file; a
  handle without one is reported as \<open>FileNotFoundError\<close>.
\<close>

definition file_write :: "string \<Rightarrow> string \<Rightarrow> unit action" where
  "file_write script text st =
     (case fs st (path_of script) of
        Some (File c m) \<Rightarrow>
          (Inr (), st\<lparr>fs := (fs st)(path_of script \<mapsto> File (c @ [text]) m)\<rparr>)
      | _ \<Rightarrow> (Inl FileNotFoundError, st))"

definition script_write :: "string \<Rightarrow> string action \<Rightarrow> unit action" where
  "script_write script e = bnd e (\<lambda>text. file_write script text)"

definition script_close :: "string \<Rightarrow> unit action" where
  "script_close script = ret ()"

definition S_IRWXU :: nat where
  "S_IRWXU = 448"

definition S_IRWXG :: nat where
  "S_IRWXG = 56"

text \<open>Only the permission bits of regular files are kept.\<close>

definition os_chmod :: "string \<Rightarrow> nat \<Rightarrow> unit action" where
  "os_chmod p mode st =
     (case blocked (fs st) p of
        Some e \<Rightarrow> (Inl e, st)
      | None \<Rightarrow>
          (case node_at (fs st) (path_of p) of
             None \<Rightarrow> (Inl FileNotFoundError, st)
           | Some Directory \<Rightarrow> (Inr (), st)
           | Some (File c m) \<Rightarrow> (Inr (), st\<lparr>fs := (fs st)(path_of p \<mapsto> File c mode)\<rparr>)))"

text \<open>
  \<open>os.mkdir\<close> makes one directory inside an existing one. \<open>os.makedirs\<close> (called with
  its defaults) first makes the directories above that are missing, from the outermost
  inwards, and then the directory itself, which must not exist. In a tree a failing call
  has made nothing, so the state is returned as it was.
\<close>

definition os_mkdir :: "string \<Rightarrow> unit action" where
  "os_mkdir name st =
     (case blocked (fs st) name of
        Some e \<Rightarrow> (Inl e, st)
      | None \<Rightarrow>
          (case node_at (fs st) (path_of name) of
             None \<Rightarrow> (Inr (), st\<lparr>fs := (fs st)(path_of name \<mapsto> Directory)\<rparr>)
           | Some n \<Rightarrow> (Inl FileExistsError, st)))"

fun make_missing :: "path list \<Rightarrow> (path \<rightharpoonup> node) \<Rightarrow> error + (path \<rightharpoonup> node)" where
  "make_missing [] f = Inr f"
| "make_missing (a # as) f =
     (case f a of
        None \<Rightarrow> make_missing as (f(a \<mapsto> Directory))
      | Some Directory \<Rightarrow> make_missing as f
      | Some (File c m) \<Rightarrow> Inl NotADirectoryError)"

definition os_makedirs :: "string \<Rightarrow> unit action" where
  "os_makedirs name st =
     (if name = [] then (Inl FileNotFoundError, st)
      else case make_missing (ancestors (path_of name)) (fs st) of
             Inl e \<Rightarrow> (Inl e, st)
           | Inr f \<Rightarrow>
               (case node_at f (path_of name) of
                  None \<Rightarrow> (Inr (), st\<lparr>fs := f(path_of name \<mapsto> Directory)\<rparr>)
                | Some n \<Rightarrow> (Inl FileExistsError, st)))"

text \<open>\<open>os.path.exists\<close> is false for a path that cannot be reached.\<close>

definition os_path_exists :: "string \<Rightarrow> bool action" where
  "os_path_exists p st =
     (Inr (blocked (fs st) p = None \<and> node_at (fs st) (path_of p) \<noteq> None), st)"

definition time_sleep :: "int \<Rightarrow> unit action" where
  "time_sleep n st = (Inr (), st\<lparr>clock := clock st + n\<rparr>)"

text \<open>
  \<open>subprocess.run(cmd, shell=True, check=True, stdout=PIPE)\<close>: the command is run, and a
  return code other than zero raises \<open>CalledProcessError\<close>; otherwise the standard output
  is the value.
\<close>

definition subprocess_run :: "env \<Rightarrow> string \<Rightarrow> string action" where
  "subprocess_run env cmd st =
     (let (returncode, stdout) = shell env (trace st) cmd;
          st' = st\<lparr>trace := trace st @ [Shell cmd returncode stdout]\<rparr>
      in if returncode \<noteq> 0 then (Inl (CalledProcessError returncode cmd), st')
         else (Inr stdout, st'))"

text \<open>
  Modelled from the spec: \<open>utils.os_utils.getenv_required\<close> is not among the source files.
  The spec says of the environment-provided locations that all are required and that the
  absence of any is fatal.
\<close>

definition getenv_required :: "env \<Rightarrow> string \<Rightarrow> string action" where
  "getenv_required env name st =
     (case environ env name of
        None \<Rightarrow> (Inl (MissingEnvironmentVariable name), st)
      | Some v \<Rightarrow> (Inr v, st))"

definition delete_resource_call :: "env \<Rightarrow> string list \<Rightarrow> unit action" where
  "delete_resource_call env args st =
     (let st' = st\<lparr>trace := trace st @ [DeleteResource args]\<rparr>
      in if delete_resource env (trace st) args then (Inr (), st')
         else (Inl DeleteResourceFailed, st'))"

section \<open>Names derived by the submitter\<close>

definition output_resource_name :: "string action" where
  "output_resource_name =
     if_scan (\<lambda>sc. cat [lit sc, lit ''_'', attr output_resource_suffix])
             (attr output_resource_suffix)"

text \<open>
  The prefix holds a time stamp, so it is built on the first request only, stored in the
  instance, and returned as stored on every later request.
\<close>

definition working_directory_name_prefix :: "string action" where
  "working_directory_name_prefix st =
     (case priv_working_directory_name_prefix (self st) of
        None \<Rightarrow>
          (let current_seconds_since_epoch = clock st;
               s = self st;
               wdir = build_home s;
               wdir = wdir @ os_sep @ project s;
               wdir = wdir @ os_sep @ PIPELINE_NAME s;
               wdir = wdir @ ''.'' @ subject s;
               wdir = wdir @ ''_'' @ classifier s;
               wdir = if_truthy (scan s) (\<lambda>sc. wdir @ ''_'' @ sc) wdir;
               wdir = wdir @ ''.'' @ str_int current_seconds_since_epoch
           in (Inr wdir, st\<lparr>self := s\<lparr>priv_working_directory_name_prefix := Some wdir\<rparr>\<rparr>))
      | Some wdir \<Rightarrow> (Inr wdir, st))"

definition working_directory_name :: "string action" where
  "working_directory_name = cat [working_directory_name_prefix, lit ''.XNAT_PROCESS_DATA'']"

definition check_data_directory_name :: "string action" where
  "check_data_directory_name = cat [working_directory_name_prefix, lit ''.XNAT_CHECK_DATA'']"

definition mark_completion_directory_name :: "string action" where
  "mark_completion_directory_name =
     cat [working_directory_name_prefix, lit ''.XNAT_MARK_COMPLETE_RUNNING_STATUS'']"

text \<open>\<open>if self.scan: name += '_' + self.scan\<close>, as the text appended.\<close>

definition scan_part :: "string action" where
  "scan_part = if_scan (\<lambda>sc. lit (''_'' @ sc)) (lit [])"

definition scripts_start_name :: "string action" where
  "scripts_start_name =
     cat [working_directory_name, lit os_sep, attr subject, lit ''_'', attr classifier,
          scan_part, lit ''.'', attr PIPELINE_NAME]"

definition get_data_job_script_name :: "string action" where
  "get_data_job_script_name = cat [scripts_start_name, lit ''.XNAT_GET_DATA_job.sh'']"

definition put_data_script_name :: "string action" where
  "put_data_script_name = cat [scripts_start_name, lit ''.XNAT_PUT_DATA_job.sh'']"

definition clean_data_script_name :: "string action" where
  "clean_data_script_name = cat [scripts_start_name, lit ''.CLEAN_DATA_job.sh'']"

definition process_data_job_script_name :: "string action" where
  "process_data_job_script_name = cat [scripts_start_name, lit ''.PROCESS_DATA_job.sh'']"

definition check_data_job_script_name :: "string action" where
  "check_data_job_script_name =
     cat [check_data_directory_name, lit os_sep, attr subject, lit ''_'', attr classifier,
          scan_part, lit ''.'', attr PIPELINE_NAME, lit ''.'', lit ''XNAT_CHECK_DATA_job.sh'']"

definition mark_no_longer_running_script_name :: "string action" where
  "mark_no_longer_running_script_name =
     cat [mark_completion_directory_name, lit os_sep, attr subject, lit ''_'', attr classifier,
          scan_part, lit ''.'', attr PIPELINE_NAME, lit ''.'',
          lit ''MARK_COMPLETE_RUNNING_STATUS_job.sh'']"

definition get_data_program_path :: "string action" where
  "get_data_program_path =
     cat [attr xnat_pbs_jobs_home, lit os_sep, attr PIPELINE_NAME, lit os_sep,
          attr PIPELINE_NAME, lit ''.XNAT_GET'']"

definition check_data_program_path :: "string action" where
  "check_data_program_path =
     cat [attr xnat_pbs_jobs_home, lit os_sep, attr PIPELINE_NAME, lit os_sep,
          attr PIPELINE_NAME, lit ''.XNAT_CHECK'']"

definition mark_running_status_program_path :: "string action" where
  "mark_running_status_program_path =
     cat [attr xnat_pbs_jobs_home, lit os_sep, attr PIPELINE_NAME, lit os_sep,
          attr PIPELINE_NAME, lit ''.XNAT_MARK_RUNNING_STATUS'']"

subsection \<open>Locations read from the environment\<close>

definition get_xnat_pbs_setup_script_path :: "env \<Rightarrow> string action" where
  "get_xnat_pbs_setup_script_path env =
     cat [getenv_required env ''XNAT_PBS_JOBS_CONTROL'', lit ''/xnat_pbs_setup'']"

definition get_xnat_pbs_setup_script_singularity_version :: "env \<Rightarrow> string action" where
  "get_xnat_pbs_setup_script_singularity_version env =
     getenv_required env ''SINGULARITY_CONTAINER_VERSION''"

definition get_xnat_pbs_setup_script_singularity_container_path :: "env \<Rightarrow> string action" where
  "get_xnat_pbs_setup_script_singularity_container_path env =
     getenv_required env ''SINGULARITY_CONTAINER_PATH''"

definition get_xnat_pbs_setup_script_singularity_container_xnat_path :: "env \<Rightarrow> string action" where
  "get_xnat_pbs_setup_script_singularity_container_xnat_path env =
     getenv_required env ''SINGULARITY_CONTAINER_XNAT_PATH''"

definition get_xnat_pbs_setup_script_singularity_bind_path :: "env \<Rightarrow> string action" where
  "get_xnat_pbs_setup_script_singularity_bind_path env =
     getenv_required env ''SINGULARITY_BIND_PATH''"

definition get_xnat_pbs_setup_script_singularity_qunexrun_path :: "env \<Rightarrow> string action" where
  "get_xnat_pbs_setup_script_singularity_qunexrun_path env =
     getenv_required env ''SINGULARITY_QUNEXRUN_PATH''"

definition get_xnat_pbs_setup_script_singularity_qunexparameter_path :: "env \<Rightarrow> string action" where
  "get_xnat_pbs_setup_script_singularity_qunexparameter_path env =
     getenv_required env ''SINGULARITY_QUNEXPARAMETER_PATH''"

definition get_xnat_pbs_setup_script_gradient_coefficient_path :: "env \<Rightarrow> string action" where
  "get_xnat_pbs_setup_script_gradient_coefficient_path env =
     getenv_required env ''GRADIENT_COEFFICIENT_PATH''"

definition get_xnat_pbs_setup_script_archive_root :: "env \<Rightarrow> string action" where
  "get_xnat_pbs_setup_script_archive_root env =
     getenv_required env ''XNAT_PBS_JOBS_ARCHIVE_ROOT''"

definition get_db_name :: "env \<Rightarrow> string action" where
  "get_db_name env = getenv_required env ''REQUESTED_XNAT_SERVER''"

section \<open>Rendering the job scripts\<close>

text \<open>
  Every rendering operation takes the name of its script, removes a file of that name if
  there is one, opens the name for writing, writes the script one \<open>write\<close> call after the
  other, closes it and makes it executable for owner and group.
\<close>

definition write_bash_header :: "env \<Rightarrow> string \<Rightarrow> unit action" where
  "write_bash_header env script =
     (let bash_line = ''#PBS -S /bin/bash''
      in seq [file_write script (wl env bash_line), file_write script (wl env [])])"

definition create_get_data_job_script :: "env \<Rightarrow> unit action" where
  "create_get_data_job_script env =
     bnd get_data_job_script_name (\<lambda>script_name.
     bnd (suppress_FileNotFoundError (os_remove script_name)) (\<lambda>_.
     bnd (open_w env script_name) (\<lambda>script.
     seq [
       write_bash_header env script,
       script_write script
         (cat [lit ''#PBS -l nodes=1:ppn=1,walltime=4:00:00,mem=4gb'', lit os_linesep]),
       script_write script
         (cat [lit ''#PBS -o '', working_directory_name, lit os_linesep]),
       script_write script
         (cat [lit ''#PBS -e '', working_directory_name, lit os_linesep]),
       script_write script
         (cat [lit os_linesep]),
       script_write script
         (cat [lit ''source '', get_xnat_pbs_setup_script_path env, lit '' '', get_db_name env,
               lit os_linesep]),
       script_write script
         (cat [lit ''module load '', get_xnat_pbs_setup_script_singularity_version env,
               lit os_linesep]),
       script_write script
         (cat [lit os_linesep]),
       script_write script
         (cat [lit ''singularity exec -B '', get_xnat_pbs_setup_script_archive_root env,
               lit '','', get_xnat_pbs_setup_script_singularity_bind_path env, lit '' '',
               get_xnat_pbs_setup_script_singularity_container_xnat_path env, lit '' '',
               get_data_program_path, lit ('' '' @ backslash), lit os_linesep]),
       script_write script
         (cat [lit ''  --project='', attr project, lit ('' '' @ backslash), lit os_linesep]),
       script_write script
         (cat [lit ''  --subject='', attr subject, lit ('' '' @ backslash), lit os_linesep]),
       script_write script
         (cat [lit ''  --classifier='', attr classifier, lit ('' '' @ backslash), lit os_linesep]),
       if_scan
         (\<lambda>sc. script_write script
               (cat [lit ''  --scan='', lit sc, lit ('' '' @ backslash), lit os_linesep]))
         (ret ()),
       script_write script
         (cat [lit ''  --working-dir='', working_directory_name, lit os_linesep]),
       script_close script,
       os_chmod script_name (or S_IRWXU S_IRWXG)])))"

definition create_put_data_script :: "env \<Rightarrow> unit action" where
  "create_put_data_script env =
     bnd put_data_script_name (\<lambda>script_name.
     bnd (suppress_FileNotFoundError (os_remove script_name)) (\<lambda>_.
     bnd (open_w env script_name) (\<lambda>script.
     seq [
       script_write script
         (cat [lit ''#PBS -l nodes=1:ppn=1,walltime=4:00:00,mem=12gb'', lit os_linesep]),
       script_write script
         (cat [lit ''#PBS -o '', attr log_dir, lit os_linesep]),
       script_write script
         (cat [lit ''#PBS -e '', attr log_dir, lit os_linesep]),
       script_write script
         (cat [lit os_linesep]),
       script_write script
         (cat [lit ''source '', get_xnat_pbs_setup_script_path env, lit '' '', get_db_name env,
               lit os_linesep]),
       script_write script
         (cat [lit ''module load '', get_xnat_pbs_setup_script_singularity_version env,
               lit os_linesep]),
       script_write script
         (cat [lit os_linesep]),
       script_write script
         (cat [lit ''mv '', working_directory_name, lit os_sep, lit ''*'', attr PIPELINE_NAME,
               lit ''* '', working_directory_name, lit os_sep, attr subject, lit ''_'',
               attr classifier, lit os_sep, lit ''ProcessingInfo'', lit os_linesep]),
       script_write script
         (cat [lit os_linesep]),
       script_write script
         (cat [lit ''singularity exec -B '', get_xnat_pbs_setup_script_archive_root env,
               lit '','', get_xnat_pbs_setup_script_singularity_bind_path env, lit '' '',
               get_xnat_pbs_setup_script_singularity_container_xnat_path env, lit '' '',
               attr xnat_pbs_jobs_home, lit os_sep, lit ''WorkingDirPut'', lit os_sep,
               lit (''XNAT_working_dir_put.sh '' @ backslash), lit os_linesep]),
       script_write script
         (cat [lit (''  --leave-subject-id-level '' @ backslash), lit os_linesep]),
       script_write script
         (cat [lit ''  --user=\"'', attr username, lit (''\" '' @ backslash), lit os_linesep]),
       script_write script
         (cat [lit ''  --password=\"'', attr password, lit (''\" '' @ backslash), lit os_linesep]),
       script_write script
         (cat [lit ''  --server=\"'', attr (\<lambda>s. get_server_name env (put_server s)),
               lit (''\" '' @ backslash), lit os_linesep]),
       script_write script
         (cat [lit ''  --project=\"'', attr project, lit (''\" '' @ backslash), lit os_linesep]),
       script_write script
         (cat [lit ''  --subject=\"'', attr subject, lit (''\" '' @ backslash), lit os_linesep]),
       script_write script
         (cat [lit ''  --session=\"'', attr session, lit (''\" '' @ backslash), lit os_linesep]),
       script_write script
         (cat [lit ''  --working-dir=\"'', working_directory_name, lit (''\" '' @ backslash),
               lit os_linesep]),
       if_scan
         (\<lambda>sc. seq [
             script_write script
               (cat [lit ''  --scan=\"'', lit sc, lit (''\" '' @ backslash), lit os_linesep]),
             script_write script
               (cat [lit ''  --resource-suffix=\"'', attr output_resource_suffix,
                     lit (''\" '' @ backslash), lit os_linesep])])
         (script_write script
             (cat [lit ''  --resource-suffix=\"'', output_resource_name,
                   lit (''\" '' @ backslash), lit os_linesep])),
       script_write script
         (cat [lit ''  --reason=\"'', attr PIPELINE_NAME, lit ''\"'', lit os_linesep]),
       script_close script,
       os_chmod script_name (or S_IRWXU S_IRWXG)])))"

definition create_clean_data_script :: "env \<Rightarrow> unit action" where
  "create_clean_data_script env =
     bnd clean_data_script_name (\<lambda>script_name.
     bnd (suppress_FileNotFoundError (os_remove script_name)) (\<lambda>_.
     bnd (open_w env script_name) (\<lambda>script.
     seq [
       write_bash_header env script,
       script_write script
         (cat [lit ''#PBS -l nodes=1:ppn=1,walltime=4:00:00,mem=4gb'', lit os_linesep]),
       script_write script
         (cat [lit ''#PBS -o '', working_directory_name, lit os_linesep]),
       script_write script
         (cat [lit ''#PBS -e '', working_directory_name, lit os_linesep]),
       script_write script
         (cat [lit os_linesep]),
       script_write script
         (cat [lit ''mv '', working_directory_name, lit os_sep, attr subject, lit ''_'',
               attr classifier, lit os_sep, attr subject, lit ''_'', attr classifier,
               lit os_sep, lit ''MNINonLinear '']),
       script_write script
         (cat [working_directory_name, lit os_sep, attr subject, lit ''_'', attr classifier,
               lit os_linesep]),
       script_write script
         (cat [lit ''mv '', working_directory_name, lit os_sep, attr subject, lit ''_'',
               attr classifier, lit os_sep, attr subject, lit ''_'', attr classifier,
               lit os_sep, lit ''T*w '']),
       script_write script
         (cat [working_directory_name, lit os_sep, attr subject, lit ''_'', attr classifier,
               lit os_linesep]),
       script_write script
         (cat [lit ''mv '', working_directory_name, lit os_sep, attr subject, lit ''_'',
               attr classifier, lit os_sep, lit ''subjects'', lit os_sep, lit ''specs '']),
       script_write script
         (cat [working_directory_name, lit os_sep, attr subject, lit ''_'', attr classifier,
               lit os_sep, lit ''ProcessingInfo'', lit os_linesep]),
       script_write script
         (cat [lit ''mv '', working_directory_name, lit os_sep, attr subject, lit ''_'',
               attr classifier, lit os_sep, lit ''processing '']),
       script_write script
         (cat [working_directory_name, lit os_sep, attr subject, lit ''_'', attr classifier,
               lit os_sep, lit ''ProcessingInfo'', lit os_linesep]),
       script_write script
         (cat [lit ''mv '', working_directory_name, lit os_sep, attr subject, lit ''_'',
               attr classifier, lit os_sep, lit ''info'', lit os_sep, lit ''hcpls '']),
       script_write script
         (cat [working_directory_name, lit os_sep, attr subject, lit ''_'', attr classifier,
               lit os_sep, lit ''ProcessingInfo'', lit os_linesep]),
       script_write script
         (cat [lit ''mv '', working_directory_name, lit os_sep, attr subject, lit ''_'',
               attr classifier, lit os_sep, lit ''subjects'', lit os_sep, attr subject,
               lit ''_'', attr classifier, lit os_sep, lit ''subject_hcp.txt '']),
       script_write script
         (cat [working_directory_name, lit os_sep, attr subject, lit ''_'', attr classifier,
               lit os_sep, lit ''ProcessingInfo'', lit os_sep, lit ''processing'',
               lit os_linesep]),
       script_write script
         (cat [lit ''mv '', working_directory_name, lit os_sep, attr subject, lit ''_'',
               attr classifier, lit os_sep, lit ''subjects'', lit os_sep, attr subject,
               lit ''_'', attr classifier, lit os_sep, lit ''hcpls'', lit os_sep,
               lit ''hcpls2nii.log '']),
       script_write script
         (cat [working_directory_name, lit os_sep, attr subject, lit ''_'', attr classifier,
               lit os_sep, lit ''ProcessingInfo'', lit os_sep, lit ''processing'',
               lit os_linesep]),
       script_write script
         (cat [lit ''find '', working_directory_name, lit os_sep, attr subject, lit ''_'',
               attr classifier]),
       script_write script
         (cat [lit '' -not -path \"'', working_directory_name, lit os_sep, attr subject,
               lit ''_'', attr classifier, lit os_sep, lit ''T*w/*\"'']),
       script_write script
         (cat [lit '' -not -path \"'', working_directory_name, lit os_sep, attr subject,
               lit ''_'', attr classifier, lit os_sep, lit ''ProcessingInfo/*\"'']),
       script_write script
         (cat [lit '' -not -path \"'', working_directory_name, lit os_sep, attr subject,
               lit ''_'', attr classifier, lit os_sep, lit ''MNINonLinear/*\"'']),
       script_write script
         (cat [lit '' -delete'']),
       script_write script
         (cat [lit os_linesep]),
       script_write script
         (cat [lit ''echo \"Removing any XNAT catalog files still around.\"'', lit os_linesep]),
       script_write script
         (cat [lit ''find '', working_directory_name, lit '' -name \"*_catalog.xml\" -delete'']),
       script_write script
         (cat [lit os_linesep]),
       script_write script
         (cat [lit ''echo \"Remaining files:\"'', lit os_linesep]),
       script_write script
         (cat [lit ''find '', working_directory_name, lit os_sep, attr subject, lit ''_'',
               attr classifier, lit os_linesep]),
       script_close script,
       os_chmod script_name (or S_IRWXU S_IRWXG)])))"

text \<open>
  In the branch for the structural pipeline the source also builds a \<open>SubjectInfo\<close> object
  that it never uses; the class is not among the source files and the construction is left
  out.
\<close>

definition create_check_data_job_script :: "env \<Rightarrow> unit action" where
  "create_check_data_job_script env =
     bnd check_data_job_script_name (\<lambda>script_name.
     bnd (suppress_FileNotFoundError (os_remove script_name)) (\<lambda>_.
     bnd (open_w env script_name) (\<lambda>script.
     seq [
       write_bash_header env script,
       script_write script
         (cat [lit ''#PBS -l nodes=1:ppn=1,walltime=4:00:00,mem=4gb'', lit os_linesep]),
       script_write script
         (cat [lit ''#PBS -o '', attr log_dir, lit os_linesep]),
       script_write script
         (cat [lit ''#PBS -e '', attr log_dir, lit os_linesep]),
       script_write script
         (cat [lit os_linesep]),
       script_write script
         (cat [lit ''source '', get_xnat_pbs_setup_script_path env, lit '' '', get_db_name env,
               lit os_linesep]),
       script_write script
         (cat [lit ''module load '', get_xnat_pbs_setup_script_singularity_version env,
               lit os_linesep]),
       script_write script
         (cat [lit os_linesep]),
       script_write script
         (cat [lit ''singularity exec -B '', get_xnat_pbs_setup_script_archive_root env,
               lit '','', get_xnat_pbs_setup_script_singularity_bind_path env, lit '' '',
               get_xnat_pbs_setup_script_singularity_container_xnat_path env, lit '' '',
               check_data_program_path, lit ('' '' @ backslash), lit os_linesep]),
       script_write script
         (cat [lit ''  --user=\"'', attr username, lit (''\" '' @ backslash), lit os_linesep]),
       script_write script
         (cat [lit ''  --password=\"'', attr password, lit (''\" '' @ backslash), lit os_linesep]),
       script_write script
         (cat [lit ''  --server=\"'', attr (\<lambda>s. get_server_name env (put_server s)),
               lit (''\" '' @ backslash), lit os_linesep]),
       script_write script
         (cat [lit ''  --project='', attr project, lit ('' '' @ backslash), lit os_linesep]),
       script_write script
         (cat [lit ''  --subject='', attr subject, lit ('' '' @ backslash), lit os_linesep]),
       script_write script
         (cat [lit ''  --classifier='', attr classifier, lit ('' '' @ backslash), lit os_linesep]),
       if_scan
         (\<lambda>sc. script_write script
               (cat [lit ''  --scan='', lit sc, lit ('' '' @ backslash), lit os_linesep]))
         (bnd (attr PIPELINE_NAME) (\<lambda>pipeline_name.
            if pipeline_name = ''StructuralPreprocessing'' then
              bnd (cat [lit ''  --fieldmap='', lit ''NONE'']) (\<lambda>fieldmap_type_line.
              script_write script
                (cat [lit fieldmap_type_line, lit ('' '' @ backslash), lit os_linesep]))
            else ret ())),
       script_write script
         (cat [lit ''  --working-dir='', check_data_directory_name, lit os_linesep]),
       script_close script,
       os_chmod script_name (or S_IRWXU S_IRWXG)])))"

definition create_mark_no_longer_running_script :: "env \<Rightarrow> unit action" where
  "create_mark_no_longer_running_script env =
     bnd mark_no_longer_running_script_name (\<lambda>script_name.
     bnd (suppress_FileNotFoundError (os_remove script_name)) (\<lambda>_.
     bnd (open_w env script_name) (\<lambda>script.
     seq [
       write_bash_header env script,
       script_write script
         (cat [lit ''#PBS -l nodes=1:ppn=1,walltime=4:00:00,mem=4gb'', lit os_linesep]),
       script_write script
         (cat [lit ''#PBS -o '', attr log_dir, lit os_linesep]),
       script_write script
         (cat [lit ''#PBS -e '', attr log_dir, lit os_linesep]),
       script_write script
         (cat [lit os_linesep]),
       script_write script
         (cat [lit ''source '', get_xnat_pbs_setup_script_path env, lit '' '', get_db_name env,
               lit os_linesep]),
       script_write script
         (cat [lit ''module load '', get_xnat_pbs_setup_script_singularity_version env,
               lit os_linesep]),
       script_write script
         (cat [lit os_linesep]),
       script_write script
         (cat [lit ''singularity exec -B '', get_xnat_pbs_setup_script_archive_root env,
               lit '','', get_xnat_pbs_setup_script_singularity_bind_path env, lit '' '',
               get_xnat_pbs_setup_script_singularity_container_xnat_path env, lit '' '',
               mark_running_status_program_path, lit ('' '' @ backslash), lit os_linesep]),
       script_write script
         (cat [lit ''  --user=\"'', attr username, lit (''\" '' @ backslash), lit os_linesep]),
       script_write script
         (cat [lit ''  --password=\"'', attr password, lit (''\" '' @ backslash), lit os_linesep]),
       script_write script
         (cat [lit ''  --server=\"'', attr (\<lambda>s. get_server_name env (put_server s)),
               lit (''\" '' @ backslash), lit os_linesep]),
       script_write script
         (cat [lit ''  --project=\"'', attr project, lit (''\" '' @ backslash), lit os_linesep]),
       script_write script
         (cat [lit ''  --subject=\"'', attr subject, lit (''\" '' @ backslash), lit os_linesep]),
       script_write script
         (cat [lit ''  --classifier=\"'', attr classifier, lit (''\" '' @ backslash),
               lit os_linesep]),
       if_scan
         (\<lambda>sc. script_write script
               (cat [lit ''  --scan=\"'', lit sc, lit (''\" '' @ backslash), lit os_linesep]))
         (ret ()),
       script_write script
         (cat [lit ''  --resource=\"'', lit ''RunningStatus'', lit (''\" '' @ backslash),
               lit os_linesep]),
       script_write script
         (cat [lit ''  --done'', lit os_linesep]),
       script_write script
         (cat [lit os_linesep]),
       script_write script
         (cat [lit ''rm -rf '', mark_completion_directory_name]),
       script_close script,
       os_chmod script_name (or S_IRWXU S_IRWXG)])))"

section \<open>The structural preprocessing submitter\<close>

text \<open>
  The subclass in \<open>ccf/structural_preprocessing\<close> overrides the rendering of the get-data
  script and supplies the abstract \<open>create_process_data_job_script\<close> and the
  \<open>mark_running_status\<close> that the base class calls.
\<close>

definition structural_create_get_data_job_script :: "env \<Rightarrow> unit action" where
  "structural_create_get_data_job_script env =
     bnd get_data_job_script_name (\<lambda>script_name.
     bnd (suppress_FileNotFoundError (os_remove script_name)) (\<lambda>_.
     bnd (open_w env script_name) (\<lambda>script.
     seq [
       write_bash_header env script,
       script_write script
         (cat [lit ''#PBS -l nodes=1:ppn=1,walltime=4:00:00,mem=4gb'', lit os_linesep]),
       script_write script
         (cat [lit ''#PBS -o '', working_directory_name, lit os_linesep]),
       script_write script
         (cat [lit ''#PBS -e '', working_directory_name, lit os_linesep]),
       script_write script
         (cat [lit os_linesep]),
       script_write script
         (cat [lit ''source '', get_xnat_pbs_setup_script_path env, lit '' '', get_db_name env,
               lit os_linesep]),
       script_write script
         (cat [lit ''module load '', get_xnat_pbs_setup_script_singularity_version env,
               lit os_linesep]),
       script_write script
         (cat [lit os_linesep]),
       script_write script
         (cat [lit ''singularity exec -B '', get_xnat_pbs_setup_script_archive_root env,
               lit '','', get_xnat_pbs_setup_script_singularity_bind_path env, lit '' '',
               get_xnat_pbs_setup_script_singularity_container_xnat_path env, lit '' '',
               get_data_program_path, lit ('' '' @ backslash), lit os_linesep]),
       script_write script
         (cat [lit ''  --project='', attr project, lit ('' '' @ backslash), lit os_linesep]),
       script_write script
         (cat [lit ''  --subject='', attr subject, lit ('' '' @ backslash), lit os_linesep]),
       script_write script
         (cat [lit ''  --classifier='', attr classifier, lit ('' '' @ backslash), lit os_linesep]),
       if_scan
         (\<lambda>sc. script_write script
               (cat [lit ''  --scan='', lit sc, lit ('' '' @ backslash), lit os_linesep]))
         (ret ()),
       script_write script
         (cat [lit ''  --working-dir='', working_directory_name, lit ('' '' @ backslash),
               lit os_linesep]),
       bnd (attr use_prescan_normalized) (\<lambda>prescan.
         if prescan then
           script_write script
             (cat [lit ''  --use-prescan-normalized'', lit ('' '' @ backslash), lit os_linesep])
         else ret ()),
       script_write script
         (cat [lit ''  --delay-seconds=120'', lit os_linesep]),
       script_write script
         (cat [lit os_linesep]),
       script_write script
         (cat [lit ''rm -rf '', working_directory_name, lit os_sep, attr subject, lit ''_'',
               attr classifier, lit ''/unprocessed/T1w_MPR_vNav_4e_RMS'', lit os_linesep]),
       script_close script,
       os_chmod script_name (or S_IRWXU S_IRWXG)])))"

text \<open>
  \<open>str.replace(old, new)\<close>: every occurrence of \<open>old\<close>, from the left and without
  overlap, becomes \<open>new\<close>; an empty \<open>old\<close> matches before every character and at the end.
\<close>

function replace_str :: "string \<Rightarrow> string \<Rightarrow> string \<Rightarrow> string" where
  "replace_str old new s =
     (if old = [] then new @ concat (map (\<lambda>c. c # new) s)
      else if s = [] then []
      else if prefix old s then new @ replace_str old new (drop (length old) s)
      else hd s # replace_str old new (tl s))"
  by pat_completeness auto
termination
  by (relation "measure (\<lambda>(old, new, s). length s)") auto

definition SUPPRESS_FREESURFER_ASSESSOR_JOB :: bool where
  "SUPPRESS_FREESURFER_ASSESSOR_JOB = True"

definition WORK_NODE_COUNT :: int where
  "WORK_NODE_COUNT = 1"

definition WORK_PPN :: int where
  "WORK_PPN = 1"

definition freesurfer_assessor_script_name :: "string action" where
  "freesurfer_assessor_script_name =
     cat [scripts_start_name, lit ''.XNAT_CREATE_FREESURFER_ASSESSOR_job.sh'']"

text \<open>
  The limits are strings taken from the command line or the configuration file, so \<open>str\<close>
  of them is the string itself. The unused \<open>SubjectInfo\<close> object is left out as before.
\<close>

definition create_process_data_job_script :: "env \<Rightarrow> unit action" where
  "create_process_data_job_script env =
     bnd (cat [attr build_home, lit os_sep, attr project]) (\<lambda>project_build_dir.
     bnd working_directory_name (\<lambda>wdn.
     let pipeline_processing_dir = replace_str (project_build_dir @ os_sep) [] wdn in
     bnd (cat [attr SCRATCH_PROCESSING_DIR, lit os_sep, attr project]) (\<lambda>scratch_processing_dir.
     bnd (os_path_exists scratch_processing_dir) (\<lambda>ex.
     bnd (if \<not> ex then os_mkdir scratch_processing_dir else ret ()) (\<lambda>_.
     bnd (getenv_required env ''XNAT_PBS_JOBS_CONTROL'') (\<lambda>xnat_pbs_jobs_control_folder.
     bnd process_data_job_script_name (\<lambda>script_name.
     bnd (suppress_FileNotFoundError (os_remove script_name)) (\<lambda>_.
     bnd (cat [attr walltime_limit_hours, lit '':00:00'']) (\<lambda>walltime_limit_str.
     bnd (cat [attr vmem_limit_gbs, lit ''gb'']) (\<lambda>vmem_limit_str.
     bnd (cat [lit ''#PBS -l nodes='', lit (str_int WORK_NODE_COUNT)]) (\<lambda>resources_line.
     bnd (cat [lit resources_line, lit '':ppn='', lit (str_int WORK_PPN), lit '':haswell''])
       (\<lambda>resources_line.
     bnd (cat [lit resources_line, lit '',walltime='', lit walltime_limit_str])
       (\<lambda>resources_line.
     bnd (cat [lit resources_line, lit '',mem='', lit vmem_limit_str]) (\<lambda>resources_line.
     bnd (cat [lit ''#PBS -o '', working_directory_name]) (\<lambda>stdout_line.
     bnd (cat [lit ''#PBS -e '', working_directory_name]) (\<lambda>stderr_line.
     bnd (cat [lit ''module load '', get_xnat_pbs_setup_script_singularity_version env])
       (\<lambda>xnat_pbs_setup_singularity_load.
     bnd (cat [lit ''singularity exec -B '', get_xnat_pbs_setup_script_archive_root env,
               lit '','', get_xnat_pbs_setup_script_singularity_bind_path env,
               lit '','', get_xnat_pbs_setup_script_gradient_coefficient_path env,
               lit '':/export/HCP/gradient_coefficient_files'', lit '' '',
               get_xnat_pbs_setup_script_singularity_container_path env, lit '' '',
               get_xnat_pbs_setup_script_singularity_qunexrun_path env])
       (\<lambda>xnat_pbs_setup_singularity_process.
     bnd (cat [lit ''  --parameterfolder='',
               get_xnat_pbs_setup_script_singularity_qunexparameter_path env])
       (\<lambda>parameter_line.
     bnd (cat [lit ''  --studyfolder='', lit scratch_processing_dir, lit os_sep,
               lit pipeline_processing_dir, lit os_sep, attr subject, lit ''_'',
               attr classifier]) (\<lambda>studyfolder_line.
     bnd (cat [lit ''  --subjects='', attr subject, lit ''_'', attr classifier])
       (\<lambda>subject_line.
     let overwrite_line = ''  --overwrite=yes'';
         hcppipelineprocess_line = ''  --hcppipelineprocess=StructuralPreprocessing'' in
     bnd (open_w env script_name) (\<lambda>script.
     seq [
       script_write script (cat [lit resources_line, lit os_linesep]),
       script_write script (cat [lit stdout_line, lit os_linesep]),
       script_write script (cat [lit stderr_line, lit os_linesep]),
       script_write script (cat [lit os_linesep]),
       script_write script (cat [lit xnat_pbs_setup_singularity_load, lit os_linesep]),
       script_write script (cat [lit os_linesep]),
       script_write script
         (cat [lit ''# TEMPORARILY MOVE PROCESSING DIRECTORY TO SCRATCH SPACE DUE TO \"Cannot allocate memory\" ERRORS IN BUILD SPACE'',
               lit os_linesep]),
       script_write script
         (cat [lit ''mv '', working_directory_name, lit '' '', lit scratch_processing_dir,
               lit os_linesep]),
       script_write script (cat [lit os_linesep]),
       script_write script
         (cat [lit xnat_pbs_setup_singularity_process, lit ('' '' @ backslash), lit os_linesep]),
       script_write script
         (cat [lit parameter_line, lit ('' '' @ backslash), lit os_linesep]),
       script_write script
         (cat [lit studyfolder_line, lit ('' '' @ backslash), lit os_linesep]),
       script_write script
         (cat [lit subject_line, lit ('' '' @ backslash), lit os_linesep]),
       script_write script
         (cat [lit overwrite_line, lit ('' '' @ backslash), lit os_linesep]),
       script_write script (cat [lit hcppipelineprocess_line, lit os_linesep]),
       script_write script (cat [lit os_linesep]),
       script_write script (cat [lit ''# MOVE PROCESSING BACK'', lit os_linesep]),
       script_write script
         (cat [lit ''mv '', lit scratch_processing_dir, lit os_sep, lit pipeline_processing_dir,
               lit '' '', lit project_build_dir, lit os_linesep]),
       script_write script (cat [lit os_linesep]),
       os_chmod script_name (or S_IRWXU S_IRWXG),
       script_close script]))))))))))))))))))))))"

text \<open>
  \<open>mark_running_status\<close> marks the session as queued, through the external program
  \<open>XNAT_MARK_RUNNING_STATUS\<close>, when the requested stage is above \<open>PREPARE_SCRIPTS\<close>. The
  output of the program is printed and otherwise unused.
\<close>

definition mark_running_status :: "env \<Rightarrow> ProcessingStage \<Rightarrow> unit action" where
  "mark_running_status env stage =
     (if stage_gt stage PREPARE_SCRIPTS then
        bnd (cat [attr xnat_pbs_jobs_home, lit os_sep, attr PIPELINE_NAME, lit os_sep,
                  attr PIPELINE_NAME, lit ''.XNAT_MARK_RUNNING_STATUS'',
                  lit '' --user='', attr username,
                  lit '' --password='', attr password,
                  lit '' --server='', attr (\<lambda>s. get_server_name env (put_server s)),
                  lit '' --project='', attr project,
                  lit '' --subject='', attr subject,
                  lit '' --classifier='', attr classifier,
                  lit '' --resource=RunningStatus'',
                  lit '' --queued'']) (\<lambda>mark_cmd.
        bnd (subprocess_run env mark_cmd) (\<lambda>completed_mark_cmd_process_stdout.
        ret ()))
      else ret ())"

section \<open>Submitting the jobs\<close>

text \<open>
  Each operation submits its script with \<open>qsub\<close> when the requested stage has reached its
  own, after the prior job when there is one, and returns the number of the job twice: alone
  and as a list. Otherwise it returns \<open>(None, None)\<close>.
\<close>

definition submit_get_data_jobs ::
  "env \<Rightarrow> ProcessingStage \<Rightarrow> string option \<Rightarrow> (string option \<times> string list option) action" where
  "submit_get_data_jobs env stage prior_job =
     (if stage_ge stage GET_DATA then
        bnd (if_truthy prior_job
               (\<lambda>prior_job. cat [lit ''qsub -W depend=afterok:'', lit prior_job, lit '' '',
                                 get_data_job_script_name])
               (cat [lit ''qsub '', get_data_job_script_name])) (\<lambda>get_data_submit_cmd.
        bnd (subprocess_run env get_data_submit_cmd) (\<lambda>completed_submit_process_stdout.
        let get_data_job_no = remove_ending_new_lines env completed_submit_process_stdout
        in ret (Some get_data_job_no, Some [get_data_job_no])))
      else ret (None, None))"

definition submit_process_data_jobs ::
  "env \<Rightarrow> ProcessingStage \<Rightarrow> string option \<Rightarrow> (string option \<times> string list option) action" where
  "submit_process_data_jobs env stage prior_job =
     (if stage_ge stage PROCESS_DATA then
        bnd (if_truthy prior_job
               (\<lambda>prior_job. cat [lit ''qsub -W depend=afterok:'', lit prior_job, lit '' '',
                                 process_data_job_script_name])
               (cat [lit ''qsub '', process_data_job_script_name])) (\<lambda>work_submit_cmd.
        bnd (subprocess_run env work_submit_cmd) (\<lambda>completed_submit_process_stdout.
        let work_job_no = remove_ending_new_lines env completed_submit_process_stdout
        in ret (Some work_job_no, Some [work_job_no])))
      else ret (None, None))"

definition submit_clean_data_jobs ::
  "env \<Rightarrow> ProcessingStage \<Rightarrow> string option \<Rightarrow> (string option \<times> string list option) action" where
  "submit_clean_data_jobs env stage prior_job =
     (if stage_ge stage CLEAN_DATA then
        bnd (if_truthy prior_job
               (\<lambda>prior_job. cat [lit ''qsub -W depend=afterok:'', lit prior_job, lit '' '',
                                 clean_data_script_name])
               (cat [lit ''qsub '', clean_data_script_name])) (\<lambda>clean_submit_cmd.
        bnd (subprocess_run env clean_submit_cmd) (\<lambda>completed_submit_process_stdout.
        let clean_job_no = remove_ending_new_lines env completed_submit_process_stdout
        in ret (Some clean_job_no, Some [clean_job_no])))
      else ret (None, None))"

definition submit_put_data_jobs ::
  "env \<Rightarrow> ProcessingStage \<Rightarrow> string option \<Rightarrow> (string option \<times> string list option) action" where
  "submit_put_data_jobs env stage prior_job =
     (if stage_ge stage PUT_DATA then
        bnd (if_truthy prior_job
               (\<lambda>prior_job. cat [lit ''qsub -W depend=afterok:'', lit prior_job, lit '' '',
                                 put_data_script_name])
               (cat [lit ''qsub '', put_data_script_name])) (\<lambda>put_submit_cmd.
        bnd (subprocess_run env put_submit_cmd) (\<lambda>completed_submit_process_stdout.
        let put_job_no = remove_ending_new_lines env completed_submit_process_stdout
        in ret (Some put_job_no, Some [put_job_no])))
      else ret (None, None))"

definition submit_check_jobs ::
  "env \<Rightarrow> ProcessingStage \<Rightarrow> string option \<Rightarrow> (string option \<times> string list option) action" where
  "submit_check_jobs env stage prior_job =
     (if stage_ge stage CHECK_DATA then
        bnd (if_truthy prior_job
               (\<lambda>prior_job. cat [lit ''qsub -W depend=afterok:'', lit prior_job, lit '' '',
                                 check_data_job_script_name])
               (cat [lit ''qsub '', check_data_job_script_name])) (\<lambda>check_submit_cmd.
        bnd (subprocess_run env check_submit_cmd) (\<lambda>completed_submit_process_stdout.
        let check_job_no = remove_ending_new_lines env completed_submit_process_stdout
        in ret (Some check_job_no, Some [check_job_no])))
      else ret (None, None))"

definition submit_no_longer_running_jobs ::
  "env \<Rightarrow> ProcessingStage \<Rightarrow> string option \<Rightarrow> (string option \<times> string list option) action" where
  "submit_no_longer_running_jobs env stage prior_job =
     (bnd (if_truthy prior_job
             (\<lambda>prior_job. cat [lit ''qsub -W depend=afterany:'', lit prior_job, lit '' '',
                               mark_no_longer_running_script_name])
             (cat [lit ''qsub '', mark_no_longer_running_script_name])) (\<lambda>cmd.
      bnd (subprocess_run env cmd) (\<lambda>completed_submit_process_stdout.
      let job_no = remove_ending_new_lines env completed_submit_process_stdout
      in ret (Some job_no, Some [job_no]))))"

text \<open>
  The structural subclass submits the standard job and would submit a FreeSurfer assessor
  job after it; the class constant \<open>SUPPRESS_FREESURFER_ASSESSOR_JOB\<close> turns that off.
  Appending to \<open>None\<close> would raise \<open>AttributeError\<close>.
\<close>

definition structural_submit_process_data_jobs ::
  "env \<Rightarrow> ProcessingStage \<Rightarrow> string option \<Rightarrow> (string option \<times> string list option) action" where
  "structural_submit_process_data_jobs env stage prior_job =
     bnd (submit_process_data_jobs env stage prior_job)
       (\<lambda>(standard_process_data_jobno, all_process_data_jobs).
     if SUPPRESS_FREESURFER_ASSESSOR_JOB then
       ret (standard_process_data_jobno, all_process_data_jobs)
     else if stage_ge stage PROCESS_DATA then
       bnd (if_truthy standard_process_data_jobno
              (\<lambda>standard_process_data_jobno.
                 cat [lit ''qsub -W depend=afterok:'', lit standard_process_data_jobno, lit '' '',
                      freesurfer_assessor_script_name])
              (cat [lit ''qsub '', freesurfer_assessor_script_name])) (\<lambda>fs_submit_cmd.
       bnd (subprocess_run env fs_submit_cmd) (\<lambda>completed_submit_process_stdout.
       let fs_job_no = remove_ending_new_lines env completed_submit_process_stdout in
       (case all_process_data_jobs of
          None \<Rightarrow> throw (AttributeError ''append'')
        | Some jobs \<Rightarrow> ret (Some fs_job_no, Some (jobs @ [fs_job_no])))))
     else ret (standard_process_data_jobno, all_process_data_jobs))"

text \<open>
  \<open>create_scripts\<close> of the base class; the calls on \<open>self\<close> reach the structural
  subclass, the one concrete submitter among the source files, so the get-data script is its
  override. The subclass's own \<open>create_scripts\<close> calls the base one and returns, the
  assessor being suppressed.
\<close>

definition create_scripts :: "env \<Rightarrow> ProcessingStage \<Rightarrow> unit action" where
  "create_scripts env stage =
     (if stage_ge stage PREPARE_SCRIPTS then
        seq [
          structural_create_get_data_job_script env,
          create_process_data_job_script env,
          create_clean_data_script env,
          create_put_data_script env,
          create_check_data_job_script env,
          create_mark_no_longer_running_script env]
      else ret ())"

text \<open>
  The assessor script of the structural subclass. \<open>shutil.copy\<close> copies a regular file
  with its permission bits, into the destination when that is a directory, and refuses to
  copy a file onto itself.
\<close>

definition os_path_basename :: "string \<Rightarrow> string" where
  "os_path_basename p = rev (takeWhile (\<lambda>c. c \<noteq> CHR ''/'') (rev p))"

definition os_path_join :: "string \<Rightarrow> string \<Rightarrow> string" where
  "os_path_join a b =
     (if take 1 b = ''/'' then b
      else if a = [] \<or> last a = CHR ''/'' then a @ b
      else a @ os_sep @ b)"

definition os_path_isdir :: "(path \<rightharpoonup> node) \<Rightarrow> string \<Rightarrow> bool" where
  "os_path_isdir f p = (blocked f p = None \<and> node_at f (path_of p) = Some Directory)"

definition shutil_copy :: "string \<Rightarrow> string \<Rightarrow> unit action" where
  "shutil_copy src dst st =
     (let target = (if os_path_isdir (fs st) dst then os_path_join dst (os_path_basename src)
                    else dst)
      in if blocked (fs st) src = None \<and> node_at (fs st) (path_of src) \<noteq> None \<and>
            blocked (fs st) target = None \<and> path_of target = path_of src
         then (Inl SameFileError, st)
         else case blocked (fs st) src of
                Some e \<Rightarrow> (Inl e, st)
              | None \<Rightarrow>
                  (case node_at (fs st) (path_of src) of
                     None \<Rightarrow> (Inl FileNotFoundError, st)
                   | Some Directory \<Rightarrow> (Inl IsADirectoryError, st)
                   | Some (File c m) \<Rightarrow>
                       (case blocked (fs st) target of
                          Some e \<Rightarrow> (Inl e, st)
                        | None \<Rightarrow>
                            (case node_at (fs st) (path_of target) of
                               Some Directory \<Rightarrow> (Inl IsADirectoryError, st)
                             | _ \<Rightarrow>
                                 (Inr (), st\<lparr>fs := (fs st)(path_of target \<mapsto> File c m)\<rparr>)))))"

definition create_freesurfer_assessor_script :: "env \<Rightarrow> unit action" where
  "create_freesurfer_assessor_script env =
     bnd (cat [attr xnat_pbs_jobs_home, lit os_sep, attr PIPELINE_NAME, lit os_sep,
               attr PIPELINE_NAME, lit ''.XNAT_CREATE_FREESURFER_ASSESSOR''])
       (\<lambda>freesurfer_assessor_source_path.
     bnd (cat [working_directory_name, lit os_sep, attr PIPELINE_NAME,
               lit ''.XNAT_CREATE_FREESURFER_ASSESSOR''])
       (\<lambda>freesurfer_assessor_dest_path.
     bnd (shutil_copy freesurfer_assessor_source_path freesurfer_assessor_dest_path) (\<lambda>_.
     bnd (os_chmod freesurfer_assessor_dest_path (or S_IRWXU S_IRWXG)) (\<lambda>_.
     bnd freesurfer_assessor_script_name (\<lambda>script_name.
     bnd (suppress_FileNotFoundError (os_remove script_name)) (\<lambda>_.
     bnd (open_w env script_name) (\<lambda>script.
     bnd (write_bash_header env script) (\<lambda>_.
     bnd (script_write script
            (cat [lit ''#PBS -l nodes=1:ppn=1,walltime=4:00:00,mem=4gb'', lit os_linesep]))
       (\<lambda>_.
     bnd (script_write script (cat [lit ''#PBS -o '', working_directory_name, lit os_linesep]))
       (\<lambda>_.
     bnd (script_write script (cat [lit ''#PBS -e '', working_directory_name, lit os_linesep]))
       (\<lambda>_.
     bnd (script_write script (cat [lit os_linesep])) (\<lambda>_.
     bnd (script_write script
            (cat [lit ''source '', get_xnat_pbs_setup_script_path env, lit '' '', get_db_name env,
                  lit os_linesep])) (\<lambda>_.
     bnd (script_write script (cat [lit os_linesep])) (\<lambda>_.
     let script_line = freesurfer_assessor_dest_path in
     bnd (cat [lit ''  --user='', attr username]) (\<lambda>user_line.
     bnd (cat [lit ''  --password='', attr password]) (\<lambda>password_line.
     bnd (cat [lit ''  --server='', attr (\<lambda>s. get_server_name env (server s))])
       (\<lambda>server_line.
     bnd (cat [lit ''  --project='', attr project]) (\<lambda>project_line.
     bnd (cat [lit ''  --subject='', attr subject]) (\<lambda>subject_line.
     bnd (cat [lit ''  --session='', attr session]) (\<lambda>session_line.
     bnd (cat [lit ''  --session-classifier='', attr classifier]) (\<lambda>session_classifier_line.
     bnd (cat [lit ''  --working-dir='', working_directory_name]) (\<lambda>wdir_line.
     seq [
       script_write script (cat [lit script_line, lit ('' '' @ backslash), lit os_linesep]),
       script_write script (cat [lit user_line, lit ('' '' @ backslash), lit os_linesep]),
       script_write script (cat [lit password_line, lit ('' '' @ backslash), lit os_linesep]),
       script_write script (cat [lit server_line, lit ('' '' @ backslash), lit os_linesep]),
       script_write script (cat [lit project_line, lit ('' '' @ backslash), lit os_linesep]),
       script_write script (cat [lit subject_line, lit ('' '' @ backslash), lit os_linesep]),
       script_write script (cat [lit session_line, lit ('' '' @ backslash), lit os_linesep]),
       script_write script
         (cat [lit session_classifier_line, lit ('' '' @ backslash), lit os_linesep]),
       script_write script (cat [lit wdir_line, lit os_linesep]),
       script_close script,
       os_chmod script_name (or S_IRWXU S_IRWXG)]))))))))))))))))))))))"

definition structural_create_scripts :: "env \<Rightarrow> ProcessingStage \<Rightarrow> unit action" where
  "structural_create_scripts env stage =
     bnd (create_scripts env stage) (\<lambda>_.
     if SUPPRESS_FREESURFER_ASSESSOR_JOB then ret ()
     else if stage_ge stage PREPARE_SCRIPTS then create_freesurfer_assessor_script env
     else ret ())"

text \<open>
  The manifest is a list of pairs of a label and the list of job numbers of that step. The
  second component is what the submit operation returned, which is \<open>None\<close> when the step was
  not submitted.
\<close>

type_synonym manifest = "(string \<times> string list option) list"

definition do_job_submissions :: "env \<Rightarrow> ProcessingStage \<Rightarrow> manifest action" where
  "do_job_submissions env processing_stage =
     (let submitted_jobs_list = [];
          prior = None in
      bnd (structural_create_scripts env processing_stage) (\<lambda>_.
      bnd (mark_running_status env processing_stage) (\<lambda>_.
      bnd (submit_get_data_jobs env processing_stage prior)
        (\<lambda>(last_get_data_job_no, all_get_data_job_nos).
      let submitted_jobs_list =
            (if truthy_list all_get_data_job_nos
             then submitted_jobs_list @ [(stage_name GET_DATA, all_get_data_job_nos)]
             else submitted_jobs_list);
          prior = (if truthy last_get_data_job_no then last_get_data_job_no else prior) in
      bnd (structural_submit_process_data_jobs env processing_stage prior)
        (\<lambda>(last_process_job_no, all_process_data_job_nos).
      let submitted_jobs_list =
            (if truthy_list all_process_data_job_nos
             then submitted_jobs_list @ [(stage_name PROCESS_DATA, all_process_data_job_nos)]
             else submitted_jobs_list);
          prior = (if truthy last_process_job_no then last_process_job_no else prior) in
      bnd (submit_clean_data_jobs env processing_stage prior)
        (\<lambda>(last_clean_job_no, all_clean_data_job_nos).
      let submitted_jobs_list =
            (if truthy_list all_process_data_job_nos
             then submitted_jobs_list @ [(stage_name CLEAN_DATA, all_clean_data_job_nos)]
             else submitted_jobs_list);
          prior = (if truthy last_clean_job_no then last_clean_job_no else prior) in
      bnd (submit_put_data_jobs env processing_stage prior)
        (\<lambda>(last_put_job_no, all_put_job_nos).
      let submitted_jobs_list =
            (if truthy_list all_put_job_nos
             then submitted_jobs_list @ [(stage_name PUT_DATA, all_put_job_nos)]
             else submitted_jobs_list);
          prior = (if truthy last_put_job_no then last_put_job_no else prior) in
      bnd (submit_check_jobs env processing_stage prior)
        (\<lambda>(last_check_job_no, all_check_job_nos).
      let submitted_jobs_list =
            (if truthy_list all_check_job_nos
             then submitted_jobs_list @ [(stage_name CHECK_DATA, all_check_job_nos)]
             else submitted_jobs_list);
          prior = (if truthy last_check_job_no then last_check_job_no else prior) in
      bnd (submit_no_longer_running_jobs env processing_stage prior)
        (\<lambda>(last_running_status_job_no, all_running_status_job_nos).
      let submitted_jobs_list =
            (if truthy_list all_running_status_job_nos
             then submitted_jobs_list @ [(''Complete Running Status'', all_running_status_job_nos)]
             else submitted_jobs_list);
          prior = (if truthy last_running_status_job_no then last_running_status_job_no
                   else prior) in
      ret submitted_jobs_list)))))))))"

definition submit_jobs :: "env \<Rightarrow> ProcessingStage \<Rightarrow> manifest action" where
  "submit_jobs env processing_stage =
     bnd (time_sleep 5) (\<lambda>_.
     bnd (bnd working_directory_name os_makedirs) (\<lambda>_.
     bnd (bnd check_data_directory_name os_makedirs) (\<lambda>_.
     bnd (bnd mark_completion_directory_name os_makedirs) (\<lambda>_.
     bnd (attr clean_output_resource_first) (\<lambda>clean.
     bnd (if clean then
            bnd (attr username) (\<lambda>a1.
            bnd (attr password) (\<lambda>a2.
            bnd (attr (\<lambda>s. get_server_name env (server s))) (\<lambda>a3.
            bnd (attr project) (\<lambda>a4.
            bnd (attr subject) (\<lambda>a5.
            bnd (attr session) (\<lambda>a6.
            bnd output_resource_name (\<lambda>a7.
            delete_resource_call env [a1, a2, a3, a4, a5, a6, a7])))))))
          else ret ()) (\<lambda>_.
     do_job_submissions env processing_stage))))))"

section \<open>Notions used in the statements and proofs\<close>

definition memoized :: "state \<Rightarrow> state" where
  "memoized st = snd (working_directory_name_prefix st)"

definition prefix_value :: "state \<Rightarrow> string" where
  "prefix_value st = (case fst (working_directory_name_prefix st) of Inr x \<Rightarrow> x | Inl e \<Rightarrow> [])"

definition scan_text :: "state \<Rightarrow> string" where
  "scan_text st = if_truthy (scan (self st)) (\<lambda>sc. ''_'' @ sc) []"

definition start_value :: "state \<Rightarrow> string" where
  "start_value st = prefix_value st @ ''.XNAT_PROCESS_DATA'' @ os_sep @ subject (self st) @ ''_'' @
     classifier (self st) @ scan_text st @ ''.'' @ PIPELINE_NAME (self st)"

definition tail_value :: "state \<Rightarrow> string" where
  "tail_value st = os_sep @ subject (self st) @ ''_'' @ classifier (self st) @ scan_text st @
     ''.'' @ PIPELINE_NAME (self st) @ ''.''"

definition name_of :: "string action \<Rightarrow> state \<Rightarrow> string" where
  "name_of N st = (case fst (N st) of Inr x \<Rightarrow> x | Inl e \<Rightarrow> [])"

definition qsub_cmd :: "string \<Rightarrow> string option \<Rightarrow> string \<Rightarrow> string" where
  "qsub_cmd mode prior script =
     if_truthy prior (\<lambda>p. ''qsub -W depend='' @ mode @ '':'' @ p @ '' '' @ script)
       (''qsub '' @ script)"

definition qsub_step ::
  "env \<Rightarrow> string \<Rightarrow> state \<Rightarrow> (error + string option \<times> string list option) \<times> state" where
  "qsub_step env cmd st =
     (let st' = (memoized st)\<lparr>trace := trace st @
                  [Shell cmd (fst (shell env (trace st) cmd)) (snd (shell env (trace st) cmd))]\<rparr>;
          j = remove_ending_new_lines env (snd (shell env (trace st) cmd))
      in if fst (shell env (trace st) cmd) \<noteq> 0
         then (Inl (CalledProcessError (fst (shell env (trace st) cmd)) cmd), st')
         else (Inr (Some j, Some [j]), st'))"

fun shell_commands :: "event list \<Rightarrow> string list" where
  "shell_commands [] = []"
| "shell_commands (Shell c rc out # es) = c # shell_commands es"
| "shell_commands (DeleteResource a # es) = shell_commands es"

definition new_events :: "'a action \<Rightarrow> state \<Rightarrow> event list" where
  "new_events a st = drop (length (trace st)) (trace (snd (a st)))"

definition commands_run :: "'a action \<Rightarrow> state \<Rightarrow> string list" where
  "commands_run a st = shell_commands (new_events a st)"

definition gated_result :: "bool \<Rightarrow> (error + string option \<times> string list option) \<Rightarrow> bool" where
  "gated_result reached r =
     (case r of
        Inl e \<Rightarrow> reached \<and> (case e of CalledProcessError rc cmd \<Rightarrow> True | _ \<Rightarrow> False)
      | Inr (last_job, all_jobs) \<Rightarrow>
          (if reached then (case last_job of Some j \<Rightarrow> all_jobs = Some [j] | None \<Rightarrow> False)
           else last_job = None \<and> all_jobs = None))"

fun chain ::
  "env \<Rightarrow> (bool \<times> string \<times> string) list \<Rightarrow> string option \<Rightarrow> state \<Rightarrow> (error + string option) \<times> state" where
  "chain env [] prior st = (Inr prior, st)"
| "chain env ((gate, mode, script) # rest) prior st =
     (if gate then
        (case qsub_step env (qsub_cmd mode prior script) st of
           (Inl e, st') \<Rightarrow> (Inl e, st')
         | (Inr (last_job, all_jobs), st') \<Rightarrow>
             chain env rest (if truthy last_job then last_job else prior) st')
      else chain env rest prior st)"

definition all_steps :: "ProcessingStage \<Rightarrow> state \<Rightarrow> (bool \<times> string \<times> string) list" where
  "all_steps stage st =
     [(stage_ge stage GET_DATA, ''afterok'', name_of get_data_job_script_name st),
      (stage_ge stage PROCESS_DATA, ''afterok'', name_of process_data_job_script_name st),
      (stage_ge stage CLEAN_DATA, ''afterok'', name_of clean_data_script_name st),
      (stage_ge stage PUT_DATA, ''afterok'', name_of put_data_script_name st),
      (stage_ge stage CHECK_DATA, ''afterok'', name_of check_data_job_script_name st),
      (True, ''afterany'', name_of mark_no_longer_running_script_name st)]"

definition outcome :: "(error + 'a) \<times> state \<Rightarrow> error option \<times> state" where
  "outcome r = (case r of (Inl e, st) \<Rightarrow> (Some e, st) | (Inr x, st) \<Rightarrow> (None, st))"

definition names_eq :: "state \<Rightarrow> state \<Rightarrow> bool" where
  "names_eq st st' \<longleftrightarrow> start_value st' = start_value st \<and> prefix_value st' = prefix_value st \<and>
     tail_value st' = tail_value st"

fun failed :: "event \<Rightarrow> bool" where
  "failed (Shell c rc out) = (rc \<noteq> 0)"
| "failed (DeleteResource a) = False"

fun raised_by :: "event \<Rightarrow> error option \<Rightarrow> bool" where
  "raised_by (Shell c rc out) r = (r = Some (CalledProcessError rc c))"
| "raised_by (DeleteResource a) r = False"

definition aborts_at_failure :: "error option \<Rightarrow> event list \<Rightarrow> bool" where
  "aborts_at_failure r evs \<longleftrightarrow>
     (\<forall>k < length evs. failed (evs ! k) \<longrightarrow> Suc k = length evs \<and> raised_by (evs ! k) r)"

fun wired :: "(string \<Rightarrow> string) \<Rightarrow> string option \<Rightarrow> (string \<times> string) list \<Rightarrow> event list \<Rightarrow> bool" where
  "wired strip prior steps [] = True"
| "wired strip prior [] (e # es) = False"
| "wired strip prior ((mode, script) # steps) (DeleteResource a # es) = False"
| "wired strip prior ((mode, script) # steps) (Shell c rc out # es) =
     (c = qsub_cmd mode prior script \<and>
      wired strip (if strip out \<noteq> [] then Some (strip out) else prior) steps es)"

definition submitted :: "(bool \<times> string \<times> string) list \<Rightarrow> (string \<times> string) list" where
  "submitted steps = map snd (filter fst steps)"

definition same_self :: "state \<Rightarrow> state \<Rightarrow> bool" where
  "same_self st st' \<longleftrightarrow> clock st' = clock st \<and> (self st' = self st \<or> self st' = self (memoized st))"

definition quiet :: "'a action \<Rightarrow> bool" where
  "quiet a \<longleftrightarrow> (\<forall>st. trace (snd (a st)) = trace st \<and> same_self st (snd (a st)))"

named_theorems quiet_intros

definition example_self :: submitter where
  "example_self =
     \<lparr> build_home = ''/b'', xnat_pbs_jobs_home = ''/x'', log_dir = ''/l'', scan = None,
       priv_working_directory_name_prefix = None, PIPELINE_NAME = ''StructuralPreprocessing'',
       username = ''u'', password = ''pw'', server = ''http://s'', project = ''P'',
       subject = ''S'', session = ''S_C'', classifier = ''C'',
       clean_output_resource_first = False, put_server = ''ps'', walltime_limit_hours = ''4'',
       vmem_limit_gbs = ''8'', output_resource_suffix = ''o'', use_prescan_normalized = False,
       SCRATCH_PROCESSING_DIR = ''/t'' \<rparr>"

definition example_state :: state where
  "example_state = \<lparr> self = example_self, fs = Map.empty, trace = [], clock = 2 \<rparr>"

definition example_env :: "(event list \<Rightarrow> string \<Rightarrow> int \<times> string) \<Rightarrow> env" where
  "example_env sh =
     \<lparr> environ = (\<lambda>n. Some ''e''), shell = sh, remove_ending_new_lines = (\<lambda>s. s),
       get_server_name = (\<lambda>s. s), wl = (\<lambda>s. s @ os_linesep),
       delete_resource = (\<lambda>tr args. True), new_file_mode = 420 \<rparr>"

section \<open>Basic facts about actions\<close>

lemma bnd_ret: "bnd (ret x) f = f x"
  by (rule ext) (simp add: bnd_def ret_def)

lemma bnd_Inr: "m st = (Inr x, st') \<Longrightarrow> bnd m f st = f x st'"
  by (simp add: bnd_def)

lemma bnd_Inl: "m st = (Inl e, st') \<Longrightarrow> bnd m f st = (Inl e, st')"
  by (simp add: bnd_def)

lemma working_directory_name_prefix_run:
  "working_directory_name_prefix st = (Inr (prefix_value st), memoized st)"
  by (simp add: memoized_def prefix_value_def working_directory_name_prefix_def Let_def
      split: option.split)

lemma memo_memoized:
  "priv_working_directory_name_prefix (self (memoized st)) = Some (prefix_value st)"
  by (simp add: memoized_def prefix_value_def working_directory_name_prefix_def Let_def
      split: option.split)

lemma memoized_fixed:
  "priv_working_directory_name_prefix (self st) = Some p \<Longrightarrow> memoized st = st"
  by (simp add: memoized_def working_directory_name_prefix_def)

lemma prefix_value_fixed:
  "priv_working_directory_name_prefix (self st) = Some p \<Longrightarrow> prefix_value st = p"
  by (simp add: prefix_value_def working_directory_name_prefix_def)

lemma memoized_memoized [simp]: "memoized (memoized st) = memoized st"
  using memo_memoized memoized_fixed by blast

lemma prefix_value_memoized [simp]: "prefix_value (memoized st) = prefix_value st"
  using memo_memoized prefix_value_fixed by blast

lemma memoized_other [simp]:
  "fs (memoized st) = fs st" "trace (memoized st) = trace st" "clock (memoized st) = clock st"
  by (simp_all add: memoized_def working_directory_name_prefix_def Let_def split: option.split)

lemma memoized_self:
  "self (memoized st) = (self st)\<lparr>priv_working_directory_name_prefix := Some (prefix_value st)\<rparr>"
  by (simp add: memoized_def prefix_value_def working_directory_name_prefix_def Let_def
      split: option.split)

lemma memoized_fields [simp]:
  "build_home (self (memoized st)) = build_home (self st)"
  "xnat_pbs_jobs_home (self (memoized st)) = xnat_pbs_jobs_home (self st)"
  "log_dir (self (memoized st)) = log_dir (self st)"
  "scan (self (memoized st)) = scan (self st)"
  "PIPELINE_NAME (self (memoized st)) = PIPELINE_NAME (self st)"
  "username (self (memoized st)) = username (self st)"
  "password (self (memoized st)) = password (self st)"
  "server (self (memoized st)) = server (self st)"
  "project (self (memoized st)) = project (self st)"
  "subject (self (memoized st)) = subject (self st)"
  "session (self (memoized st)) = session (self st)"
  "classifier (self (memoized st)) = classifier (self st)"
  "clean_output_resource_first (self (memoized st)) = clean_output_resource_first (self st)"
  "put_server (self (memoized st)) = put_server (self st)"
  "walltime_limit_hours (self (memoized st)) = walltime_limit_hours (self st)"
  "vmem_limit_gbs (self (memoized st)) = vmem_limit_gbs (self st)"
  "output_resource_suffix (self (memoized st)) = output_resource_suffix (self st)"
  "use_prescan_normalized (self (memoized st)) = use_prescan_normalized (self st)"
  "SCRATCH_PROCESSING_DIR (self (memoized st)) = SCRATCH_PROCESSING_DIR (self st)"
  by (simp_all add: memoized_self)

lemma memoized_update [simp]:
  "memoized (st\<lparr>fs := f\<rparr>) = (memoized st)\<lparr>fs := f\<rparr>"
  "memoized (st\<lparr>trace := t\<rparr>) = (memoized st)\<lparr>trace := t\<rparr>"
  by (simp_all add: memoized_def working_directory_name_prefix_def Let_def split: option.split)

lemma prefix_value_update [simp]:
  "prefix_value (st\<lparr>fs := f\<rparr>) = prefix_value st"
  "prefix_value (st\<lparr>trace := t\<rparr>) = prefix_value st"
  by (simp_all add: prefix_value_def working_directory_name_prefix_def Let_def split: option.split)

lemma scan_text_simps [simp]:
  "scan_text (memoized st) = scan_text st"
  "scan_text (st\<lparr>fs := f\<rparr>) = scan_text st"
  "scan_text (st\<lparr>trace := t\<rparr>) = scan_text st"
  by (simp_all add: scan_text_def)

lemma scan_part_run: "scan_part st = (Inr (scan_text st), st)"
  by (simp add: scan_part_def if_scan_def if_truthy_def scan_text_def lit_def ret_def
      split: option.split)

lemmas name_unfold = bnd_def ret_def lit_def attr_def working_directory_name_prefix_run
  scan_part_run

lemma working_directory_name_run:
  "working_directory_name st = (Inr (prefix_value st @ ''.XNAT_PROCESS_DATA''), memoized st)"
  by (simp add: working_directory_name_def name_unfold)

lemma check_data_directory_name_run:
  "check_data_directory_name st = (Inr (prefix_value st @ ''.XNAT_CHECK_DATA''), memoized st)"
  by (simp add: check_data_directory_name_def name_unfold)

lemma mark_completion_directory_name_run:
  "mark_completion_directory_name st =
     (Inr (prefix_value st @ ''.XNAT_MARK_COMPLETE_RUNNING_STATUS''), memoized st)"
  by (simp add: mark_completion_directory_name_def name_unfold)

lemma scripts_start_name_run: "scripts_start_name st = (Inr (start_value st), memoized st)"
  by (simp add: scripts_start_name_def start_value_def name_unfold working_directory_name_run)

lemma start_value_simps [simp]:
  "start_value (memoized st) = start_value st"
  "start_value (st\<lparr>fs := f\<rparr>) = start_value st"
  "start_value (st\<lparr>trace := t\<rparr>) = start_value st"
  by (simp_all add: start_value_def)

lemma get_data_job_script_name_run:
  "get_data_job_script_name st = (Inr (start_value st @ ''.XNAT_GET_DATA_job.sh''), memoized st)"
  by (simp add: get_data_job_script_name_def name_unfold scripts_start_name_run)

lemma put_data_script_name_run:
  "put_data_script_name st = (Inr (start_value st @ ''.XNAT_PUT_DATA_job.sh''), memoized st)"
  by (simp add: put_data_script_name_def name_unfold scripts_start_name_run)

lemma clean_data_script_name_run:
  "clean_data_script_name st = (Inr (start_value st @ ''.CLEAN_DATA_job.sh''), memoized st)"
  by (simp add: clean_data_script_name_def name_unfold scripts_start_name_run)

lemma process_data_job_script_name_run:
  "process_data_job_script_name st =
     (Inr (start_value st @ ''.PROCESS_DATA_job.sh''), memoized st)"
  by (simp add: process_data_job_script_name_def name_unfold scripts_start_name_run)

lemma tail_value_simps [simp]:
  "tail_value (memoized st) = tail_value st"
  "tail_value (st\<lparr>fs := f\<rparr>) = tail_value st"
  "tail_value (st\<lparr>trace := t\<rparr>) = tail_value st"
  by (simp_all add: tail_value_def)

lemma check_data_job_script_name_run:
  "check_data_job_script_name st =
     (Inr (prefix_value st @ ''.XNAT_CHECK_DATA'' @ tail_value st @ ''XNAT_CHECK_DATA_job.sh''),
      memoized st)"
  by (simp add: check_data_job_script_name_def tail_value_def name_unfold
      check_data_directory_name_run)

lemma mark_no_longer_running_script_name_run:
  "mark_no_longer_running_script_name st =
     (Inr (prefix_value st @ ''.XNAT_MARK_COMPLETE_RUNNING_STATUS'' @ tail_value st @
           ''MARK_COMPLETE_RUNNING_STATUS_job.sh''), memoized st)"
  by (simp add: mark_no_longer_running_script_name_def tail_value_def name_unfold
      mark_completion_directory_name_run)

lemmas script_name_runs = get_data_job_script_name_run process_data_job_script_name_run
  clean_data_script_name_run put_data_script_name_run check_data_job_script_name_run
  mark_no_longer_running_script_name_run

lemma name_of_scripts:
  "name_of get_data_job_script_name st = start_value st @ ''.XNAT_GET_DATA_job.sh''"
  "name_of process_data_job_script_name st = start_value st @ ''.PROCESS_DATA_job.sh''"
  "name_of clean_data_script_name st = start_value st @ ''.CLEAN_DATA_job.sh''"
  "name_of put_data_script_name st = start_value st @ ''.XNAT_PUT_DATA_job.sh''"
  "name_of check_data_job_script_name st =
     prefix_value st @ ''.XNAT_CHECK_DATA'' @ tail_value st @ ''XNAT_CHECK_DATA_job.sh''"
  "name_of mark_no_longer_running_script_name st =
     prefix_value st @ ''.XNAT_MARK_COMPLETE_RUNNING_STATUS'' @ tail_value st @
       ''MARK_COMPLETE_RUNNING_STATUS_job.sh''"
  by (simp_all add: name_of_def script_name_runs)

section \<open>One submission\<close>

lemma subprocess_run_alt:
  "subprocess_run env cmd st =
     (let st' = st\<lparr>trace := trace st @
                  [Shell cmd (fst (shell env (trace st) cmd)) (snd (shell env (trace st) cmd))]\<rparr>
      in if fst (shell env (trace st) cmd) \<noteq> 0
         then (Inl (CalledProcessError (fst (shell env (trace st) cmd)) cmd), st')
         else (Inr (snd (shell env (trace st) cmd)), st'))"
  by (simp add: subprocess_run_def Let_def split: prod.split)

lemma submit_pattern:
  assumes N: "\<And>s. N s = (Inr (n s), memoized s)"
  shows "bnd (if_truthy prior (\<lambda>p. cat [lit (''qsub -W depend='' @ mode @ '':''), lit p, lit '' '', N])
               (cat [lit ''qsub '', N]))
           (\<lambda>cmd. bnd (subprocess_run env cmd) (\<lambda>out.
              let j = remove_ending_new_lines env out in ret (Some j, Some [j]))) st
         = qsub_step env (qsub_cmd mode prior (n st)) st"
  by (simp add: if_truthy_def qsub_cmd_def qsub_step_def subprocess_run_alt bnd_def ret_def
      lit_def N Let_def split: option.split)

lemma submit_get_data_jobs_run:
  "submit_get_data_jobs env stage prior st =
     (if stage_ge stage GET_DATA
      then qsub_step env (qsub_cmd ''afterok'' prior (start_value st @ ''.XNAT_GET_DATA_job.sh'')) st
      else (Inr (None, None), st))"
  unfolding submit_get_data_jobs_def
  using submit_pattern [of get_data_job_script_name _ prior "''afterok''" env st,
      OF get_data_job_script_name_run]
  by (simp add: ret_def)

lemma submit_process_data_jobs_run:
  "submit_process_data_jobs env stage prior st =
     (if stage_ge stage PROCESS_DATA
      then qsub_step env (qsub_cmd ''afterok'' prior (start_value st @ ''.PROCESS_DATA_job.sh'')) st
      else (Inr (None, None), st))"
  unfolding submit_process_data_jobs_def
  using submit_pattern [of process_data_job_script_name _ prior "''afterok''" env st, OF process_data_job_script_name_run]
  by (simp add: ret_def)

lemma submit_clean_data_jobs_run:
  "submit_clean_data_jobs env stage prior st =
     (if stage_ge stage CLEAN_DATA
      then qsub_step env (qsub_cmd ''afterok'' prior (start_value st @ ''.CLEAN_DATA_job.sh'')) st
      else (Inr (None, None), st))"
  unfolding submit_clean_data_jobs_def
  using submit_pattern [of clean_data_script_name _ prior "''afterok''" env st, OF clean_data_script_name_run]
  by (simp add: ret_def)

lemma submit_put_data_jobs_run:
  "submit_put_data_jobs env stage prior st =
     (if stage_ge stage PUT_DATA
      then qsub_step env (qsub_cmd ''afterok'' prior (start_value st @ ''.XNAT_PUT_DATA_job.sh'')) st
      else (Inr (None, None), st))"
  unfolding submit_put_data_jobs_def
  using submit_pattern [of put_data_script_name _ prior "''afterok''" env st, OF put_data_script_name_run]
  by (simp add: ret_def)

lemma submit_check_jobs_run:
  "submit_check_jobs env stage prior st =
     (if stage_ge stage CHECK_DATA
      then qsub_step env (qsub_cmd ''afterok'' prior (prefix_value st @ ''.XNAT_CHECK_DATA'' @ tail_value st @ ''XNAT_CHECK_DATA_job.sh'')) st
      else (Inr (None, None), st))"
  unfolding submit_check_jobs_def
  using submit_pattern [of check_data_job_script_name _ prior "''afterok''" env st, OF check_data_job_script_name_run]
  by (simp add: ret_def)

lemma submit_no_longer_running_jobs_run:
  "submit_no_longer_running_jobs env stage prior st =
     qsub_step env (qsub_cmd ''afterany'' prior
       (prefix_value st @ ''.XNAT_MARK_COMPLETE_RUNNING_STATUS'' @ tail_value st @
        ''MARK_COMPLETE_RUNNING_STATUS_job.sh'')) st"
  unfolding submit_no_longer_running_jobs_def
  using submit_pattern [of mark_no_longer_running_script_name _ prior "''afterany''" env st,
      OF mark_no_longer_running_script_name_run]
  by simp

lemma structural_submit_process_data_jobs_run:
  "structural_submit_process_data_jobs env stage prior st =
     submit_process_data_jobs env stage prior st"
  by (simp add: structural_submit_process_data_jobs_def SUPPRESS_FREESURFER_ASSESSOR_JOB_def
      bnd_def ret_def split: prod.split sum.split)

lemmas submit_runs = submit_get_data_jobs_run submit_process_data_jobs_run
  submit_clean_data_jobs_run submit_put_data_jobs_run submit_check_jobs_run
  submit_no_longer_running_jobs_run

section \<open>Events and commands of a step\<close>

lemma gated_result_qsub_step: "gated_result True (fst (qsub_step env cmd st))"
  by (simp add: gated_result_def qsub_step_def Let_def)

lemma commands_run_qsub_step: "commands_run (qsub_step env cmd) st = [cmd]"
  by (simp add: commands_run_def new_events_def qsub_step_def Let_def)

lemma outcome_simps [simp]:
  "outcome (Inl e, st) = (Some e, st)" "outcome (Inr x, st) = (None, st)"
  by (simp_all add: outcome_def)

lemma qsub_step_names [simp]:
  "start_value (snd (qsub_step env cmd st)) = start_value st"
  "prefix_value (snd (qsub_step env cmd st)) = prefix_value st"
  "tail_value (snd (qsub_step env cmd st)) = tail_value st"
  by (simp_all add: qsub_step_def Let_def)

lemma names_eq_refl [simp]: "names_eq st st"
  by (simp add: names_eq_def)

lemma names_eq_qsub_step [simp]: "names_eq st (snd (qsub_step env cmd st))"
  by (simp add: names_eq_def)

lemma outcome_bnd:
  "outcome (bnd m f st) =
     (case m st of (Inl e, st') \<Rightarrow> (Some e, st') | (Inr x, st') \<Rightarrow> outcome (f x st'))"
  by (simp add: bnd_def outcome_def split: prod.split sum.split)

lemma chain_head:
  assumes m: "\<And>s. m s = (if gate then qsub_step env (qsub_cmd mode prior (n s)) s
                        else (Inr (None, None), s))"
    and n: "n st = script"
    and k: "\<And>l a st'. names_eq st st' \<Longrightarrow>
              outcome (f (l, a) st') = outcome (chain env rest (if truthy l then l else prior) st')"
  shows "outcome (bnd m f st) = outcome (chain env ((gate, mode, script) # rest) prior st)"
proof (cases gate)
  case False
  then show ?thesis
    using k [of st None None] by (simp add: outcome_bnd m truthy_def)
next
  case True
  show ?thesis
  proof (cases "qsub_step env (qsub_cmd mode prior script) st")
    case (Pair r st')
    then have ne: "names_eq st st'"
      using names_eq_qsub_step [of st env "qsub_cmd mode prior script"] by simp
    show ?thesis
    proof (cases r)
      case (Inl e)
      with Pair True show ?thesis by (simp add: outcome_bnd m n)
    next
      case (Inr x)
      obtain l a where x: "x = (l, a)" by (cases x)
      with Pair True Inr k [OF ne, of l a] show ?thesis
        by (simp add: outcome_bnd m n)
    qed
  qed
qed

lemma names_eq_script_names:
  assumes "names_eq st st'"
  shows "name_of get_data_job_script_name st' = name_of get_data_job_script_name st"
    "name_of process_data_job_script_name st' = name_of process_data_job_script_name st"
    "name_of clean_data_script_name st' = name_of clean_data_script_name st"
    "name_of put_data_script_name st' = name_of put_data_script_name st"
    "name_of check_data_job_script_name st' = name_of check_data_job_script_name st"
    "name_of mark_no_longer_running_script_name st' = name_of mark_no_longer_running_script_name st"
  using assms by (simp_all add: names_eq_def name_of_scripts)

lemma names_eq_trans: "names_eq a b \<Longrightarrow> names_eq b c \<Longrightarrow> names_eq a c"
  by (simp add: names_eq_def)

lemma submissions_chain:
  "outcome (bnd (submit_get_data_jobs env stage None)
        (\<lambda>(last_get_data_job_no, all_get_data_job_nos).
      bnd (structural_submit_process_data_jobs env stage (if truthy last_get_data_job_no then last_get_data_job_no else None))
        (\<lambda>(last_process_job_no, all_process_data_job_nos).
      bnd (submit_clean_data_jobs env stage (if truthy last_process_job_no then last_process_job_no else if truthy last_get_data_job_no then last_get_data_job_no else None))
        (\<lambda>(last_clean_job_no, all_clean_data_job_nos).
      bnd (submit_put_data_jobs env stage (if truthy last_clean_job_no then last_clean_job_no else if truthy last_process_job_no then last_process_job_no else if truthy last_get_data_job_no then last_get_data_job_no else None))
        (\<lambda>(last_put_job_no, all_put_job_nos).
      bnd (submit_check_jobs env stage (if truthy last_put_job_no then last_put_job_no else if truthy last_clean_job_no then last_clean_job_no else if truthy last_process_job_no then last_process_job_no else if truthy last_get_data_job_no then last_get_data_job_no else None))
        (\<lambda>(last_check_job_no, all_check_job_nos).
      bnd (submit_no_longer_running_jobs env stage (if truthy last_check_job_no then last_check_job_no else if truthy last_put_job_no then last_put_job_no else if truthy last_clean_job_no then last_clean_job_no else if truthy last_process_job_no then last_process_job_no else if truthy last_get_data_job_no then last_get_data_job_no else None))
        (\<lambda>(last_running_status_job_no, all_running_status_job_nos).
      ret (M all_get_data_job_nos all_process_data_job_nos all_clean_data_job_nos all_put_job_nos
             all_check_job_nos all_running_status_job_nos))))))) st)
   = outcome (chain env (all_steps stage st) None st)"
  unfolding all_steps_def
  apply (rule chain_head [where n = "name_of get_data_job_script_name"])
    apply (simp add: submit_runs name_of_scripts)
   apply (rule refl)
  apply (simp only: prod.case)
  apply (rule chain_head [where n = "name_of process_data_job_script_name"])
    apply (simp add: submit_runs structural_submit_process_data_jobs_run name_of_scripts)
   apply (simp add: names_eq_script_names)
  apply (simp only: prod.case)
  apply (rule chain_head [where n = "name_of clean_data_script_name"])
    apply (simp add: submit_runs name_of_scripts)
   apply (simp add: names_eq_script_names)
  apply (simp only: prod.case)
  apply (rule chain_head [where n = "name_of put_data_script_name"])
    apply (simp add: submit_runs name_of_scripts)
   apply (simp add: names_eq_script_names)
  apply (simp only: prod.case)
  apply (rule chain_head [where n = "name_of check_data_job_script_name"])
    apply (simp add: submit_runs name_of_scripts)
   apply (simp add: names_eq_script_names)
  apply (simp only: prod.case)
  apply (rule chain_head [where n = "name_of mark_no_longer_running_script_name"])
    apply (simp add: submit_runs name_of_scripts)
   apply (simp add: names_eq_script_names)
  apply (simp add: ret_def)
  done

lemma do_job_submissions_chain:
  "outcome (do_job_submissions env stage st) =
     (case structural_create_scripts env stage st of
        (Inl e, st1) \<Rightarrow> (Some e, st1)
      | (Inr u, st1) \<Rightarrow>
          (case mark_running_status env stage st1 of
             (Inl e, st2) \<Rightarrow> (Some e, st2)
           | (Inr u, st2) \<Rightarrow> outcome (chain env (all_steps stage st2) None st2)))"
  unfolding do_job_submissions_def Let_def
  apply (subst outcome_bnd)
  apply (subst outcome_bnd)
  apply (simp only: submissions_chain)
  done

lemma submitted_simps [simp]:
  "submitted [] = []"
  "submitted ((gate, ms) # rest) = (if gate then ms # submitted rest else submitted rest)"
  by (simp_all add: submitted_def)

lemma aborts_at_failure_Nil [simp]: "aborts_at_failure r []"
  by (simp add: aborts_at_failure_def)

lemma aborts_at_failure_single:
  "aborts_at_failure r [e] \<longleftrightarrow> (failed e \<longrightarrow> raised_by e r)"
  by (simp add: aborts_at_failure_def)

lemma aborts_at_failure_Cons:
  "\<not> failed e \<Longrightarrow> aborts_at_failure r es \<Longrightarrow> aborts_at_failure r (e # es)"
  unfolding aborts_at_failure_def
  by (auto simp: nth_Cons split: nat.splits)

lemma aborts_at_failure_append:
  assumes "\<forall>e \<in> set es1. \<not> failed e" "aborts_at_failure r es2"
  shows "aborts_at_failure r (es1 @ es2)"
  using assms by (induction es1) (auto intro: aborts_at_failure_Cons)

lemma aborts_no_error:
  assumes "aborts_at_failure None evs"
  shows "\<forall>e \<in> set evs. \<not> failed e"
proof
  fix e assume "e \<in> set evs"
  then obtain k where k: "k < length evs" "evs ! k = e" by (auto simp: in_set_conv_nth)
  show "\<not> failed e"
  proof
    assume "failed e"
    with k assms have "raised_by e None" by (auto simp: aborts_at_failure_def)
    then show False by (cases e) auto
  qed
qed

lemma qsub_step_trace:
  "trace (snd (qsub_step env cmd st)) =
     trace st @ [Shell cmd (fst (shell env (trace st) cmd)) (snd (shell env (trace st) cmd))]"
  by (simp add: qsub_step_def Let_def)

lemma qsub_step_result:
  "fst (qsub_step env cmd st) =
     (if fst (shell env (trace st) cmd) \<noteq> 0
      then Inl (CalledProcessError (fst (shell env (trace st) cmd)) cmd)
      else Inr (Some (remove_ending_new_lines env (snd (shell env (trace st) cmd))),
                Some [remove_ending_new_lines env (snd (shell env (trace st) cmd))]))"
  by (simp add: qsub_step_def Let_def)

lemma chain_spec:
  "\<exists>evs. trace (snd (chain env steps prior st)) = trace st @ evs \<and>
         wired (remove_ending_new_lines env) prior (submitted steps) evs \<and>
         aborts_at_failure (fst (outcome (chain env steps prior st))) evs \<and>
         (fst (outcome (chain env steps prior st)) = None \<longrightarrow>
            length evs = length (submitted steps)) \<and>
         names_eq st (snd (chain env steps prior st))"
proof (induction steps arbitrary: prior st)
  case Nil
  show ?case by simp
next
  case (Cons s rest)
  obtain gate mode script where s: "s = (gate, mode, script)" by (cases s)
  show ?case
  proof (cases gate)
    case False
    with Cons.IH [of prior st] s show ?thesis by simp
  next
    case True
    let ?cmd = "qsub_cmd mode prior script"
    let ?rc = "fst (shell env (trace st) ?cmd)"
    let ?out = "snd (shell env (trace st) ?cmd)"
    let ?st' = "snd (qsub_step env ?cmd st)"
    have tr: "trace ?st' = trace st @ [Shell ?cmd ?rc ?out]" by (rule qsub_step_trace)
    have sub: "submitted (s # rest) = (mode, script) # submitted rest"
      using s True by simp
    show ?thesis
    proof (cases "?rc = 0")
      case False
      then have ch: "chain env (s # rest) prior st = (Inl (CalledProcessError ?rc ?cmd), ?st')"
        using s True by (simp add: qsub_step_def Let_def)
      show ?thesis
        apply (rule exI [of _ "[Shell ?cmd ?rc ?out]"])
        using tr False by (simp add: ch sub aborts_at_failure_single)
    next
      case rc0: True
      let ?j = "remove_ending_new_lines env ?out"
      let ?prior' = "if ?j \<noteq> [] then Some ?j else prior"
      have ch: "chain env (s # rest) prior st = chain env rest ?prior' ?st'"
        using s True rc0 by (simp add: qsub_step_def Let_def truthy_def)
      from Cons.IH [of ?prior' ?st'] obtain evs where
        evs: "trace (snd (chain env rest ?prior' ?st')) = trace ?st' @ evs"
          "wired (remove_ending_new_lines env) ?prior' (submitted rest) evs"
          "aborts_at_failure (fst (outcome (chain env rest ?prior' ?st'))) evs"
          "fst (outcome (chain env rest ?prior' ?st')) = None \<longrightarrow>
             length evs = length (submitted rest)"
          "names_eq ?st' (snd (chain env rest ?prior' ?st'))"
        by (elim exE conjE) (rule that)
      have ne: "names_eq st (snd (chain env rest ?prior' ?st'))"
        using names_eq_trans [OF names_eq_qsub_step evs(5)] .
      let ?res = "chain env (s # rest) prior st"
      have t: "trace (snd ?res) = trace st @ (Shell ?cmd ?rc ?out # evs)"
        unfolding ch using evs(1) tr by simp
      have w: "wired (remove_ending_new_lines env) prior (submitted (s # rest))
                 (Shell ?cmd ?rc ?out # evs)"
        unfolding sub using evs(2) by simp
      have nf: "\<not> failed (Shell ?cmd ?rc ?out)"
        using rc0 by simp
      have a: "aborts_at_failure (fst (outcome ?res)) (Shell ?cmd ?rc ?out # evs)"
        unfolding ch using evs(3) nf by (rule aborts_at_failure_Cons [rotated])
      have l: "fst (outcome ?res) = None \<longrightarrow>
                 length (Shell ?cmd ?rc ?out # evs) = length (submitted (s # rest))"
        unfolding ch sub using evs(4) by simp
      have n: "names_eq st (snd ?res)"
        unfolding ch using ne .
      show ?thesis
        by (rule exI [of _ "Shell ?cmd ?rc ?out # evs"]) (intro conjI t w a l n)
    qed
  qed
qed

lemma memoized_cong: "self a = self b \<Longrightarrow> clock a = clock b \<Longrightarrow> self (memoized a) = self (memoized b)"
  by (simp add: memoized_def working_directory_name_prefix_def Let_def split: option.split)

lemma prefix_value_cong: "self a = self b \<Longrightarrow> clock a = clock b \<Longrightarrow> prefix_value a = prefix_value b"
  by (simp add: prefix_value_def working_directory_name_prefix_def Let_def split: option.split)

lemma same_self_refl [simp]: "same_self st st"
  by (simp add: same_self_def)

lemma same_self_memoized [simp]: "same_self st (memoized st)"
  by (simp add: same_self_def)

lemma same_self_trans: "same_self a b \<Longrightarrow> same_self b c \<Longrightarrow> same_self a c"
  unfolding same_self_def
  using memoized_cong [of b a] memoized_cong [of b "memoized a"] memoized_memoized [of a]
  by (metis memoized_other(3))

lemma same_self_names_eq: "same_self st st' \<Longrightarrow> names_eq st st'"
  unfolding same_self_def names_eq_def start_value_def tail_value_def scan_text_def
  using prefix_value_cong [of st' st] prefix_value_cong [of st' "memoized st"]
  by (auto simp: memoized_self)

lemma quietI: "(\<And>st. trace (snd (a st)) = trace st \<and> same_self st (snd (a st))) \<Longrightarrow> quiet a"
  by (simp add: quiet_def)

lemma quietD: "quiet a \<Longrightarrow> trace (snd (a st)) = trace st \<and> same_self st (snd (a st))"
  by (simp add: quiet_def)

lemma quiet_ret [quiet_intros]: "quiet (ret x)"
  by (simp add: quiet_def ret_def)

lemma quiet_throw [quiet_intros]: "quiet (throw e)"
  by (simp add: quiet_def throw_def)

lemma quiet_lit [quiet_intros]: "quiet (lit s)"
  by (simp add: quiet_def lit_def ret_def)

lemma quiet_attr [quiet_intros]: "quiet (attr f)"
  by (simp add: quiet_def attr_def)

lemma quiet_bnd [quiet_intros]:
  assumes "quiet m" "\<And>x. quiet (f x)"
  shows "quiet (bnd m f)"
proof (rule quietI)
  fix st
  obtain r st1 where m: "m st = (r, st1)" by (cases "m st")
  from quietD [OF assms(1), of st] m
  have 1: "trace st1 = trace st" "same_self st st1" by simp_all
  show "trace (snd (bnd m f st)) = trace st \<and> same_self st (snd (bnd m f st))"
  proof (cases r)
    case (Inl e)
    with m 1 show ?thesis by (simp add: bnd_def)
  next
    case (Inr x)
    from quietD [OF assms(2), of x st1] 1 same_self_trans [of st st1]
    have "trace (snd (f x st1)) = trace st \<and> same_self st (snd (f x st1))" by simp
    with m Inr show ?thesis by (simp add: bnd_def)
  qed
qed

lemma quiet_seq_Nil [quiet_intros]: "quiet (seq [])"
  by (simp add: quiet_ret)

lemma quiet_seq_Cons [quiet_intros]: "quiet a \<Longrightarrow> quiet (seq as) \<Longrightarrow> quiet (seq (a # as))"
  by (simp add: quiet_bnd)

lemma quiet_cat_Nil [quiet_intros]: "quiet (cat [])"
  by (simp add: quiet_ret)

lemma quiet_cat_Cons [quiet_intros]: "quiet e \<Longrightarrow> quiet (cat es) \<Longrightarrow> quiet (cat (e # es))"
  by (simp add: quiet_bnd quiet_ret)

lemma quiet_if [quiet_intros]: "quiet a \<Longrightarrow> quiet b \<Longrightarrow> quiet (if c then a else b)"
  by simp

lemma quiet_if_truthy [quiet_intros]:
  "(\<And>s. quiet (f s)) \<Longrightarrow> quiet g \<Longrightarrow> quiet (if_truthy v f g)"
  by (simp add: if_truthy_def split: option.split)

lemma quiet_if_scan [quiet_intros]:
  "(\<And>sc. quiet (f sc)) \<Longrightarrow> quiet g \<Longrightarrow> quiet (if_scan f g)"
  unfolding quiet_def if_scan_def if_truthy_def by (simp split: option.split)

lemma quiet_fs_only:
  assumes "\<And>st. \<exists>f. snd (a st) = st\<lparr>fs := f\<rparr>"
  shows "quiet a"
proof (rule quietI)
  fix st
  from assms [of st] obtain f where "snd (a st) = st\<lparr>fs := f\<rparr>" ..
  then show "trace (snd (a st)) = trace st \<and> same_self st (snd (a st))"
    by (simp add: same_self_def)
qed

lemma state_fs_same: "st = st\<lparr>fs := fs st\<rparr>"
  by simp

lemma quiet_os_remove [quiet_intros]: "quiet (os_remove p)"
  by (rule quiet_fs_only) (auto simp: os_remove_def intro: state_fs_same split: option.split node.split)

lemma snd_suppress: "snd (suppress_FileNotFoundError a st) = snd (a st)"
  by (simp add: suppress_FileNotFoundError_def split: prod.split sum.split error.split)

lemma quiet_suppress [quiet_intros]: "quiet a \<Longrightarrow> quiet (suppress_FileNotFoundError a)"
  by (simp add: quiet_def snd_suppress)

lemma quiet_open_w [quiet_intros]: "quiet (open_w env p)"
  by (rule quiet_fs_only) (auto simp: open_w_def intro: state_fs_same split: option.split node.split)

lemma quiet_file_write [quiet_intros]: "quiet (file_write p t)"
  by (rule quiet_fs_only) (auto simp: file_write_def intro: state_fs_same split: option.split node.split)

lemma quiet_script_write [quiet_intros]: "quiet e \<Longrightarrow> quiet (script_write p e)"
  by (simp add: script_write_def quiet_bnd quiet_file_write)

lemma quiet_script_close [quiet_intros]: "quiet (script_close p)"
  by (simp add: script_close_def quiet_ret)

lemma quiet_os_chmod [quiet_intros]: "quiet (os_chmod p m)"
  by (rule quiet_fs_only) (auto simp: os_chmod_def intro: state_fs_same split: option.split node.split)

lemma quiet_os_makedirs [quiet_intros]: "quiet (os_makedirs p)"
  by (rule quiet_fs_only)
    (auto simp: os_makedirs_def intro: state_fs_same split: option.split sum.split)

lemma quiet_os_mkdir [quiet_intros]: "quiet (os_mkdir p)"
  by (rule quiet_fs_only) (auto simp: os_mkdir_def intro: state_fs_same split: option.split)

lemma quiet_os_path_exists [quiet_intros]: "quiet (os_path_exists p)"
  by (simp add: quiet_def os_path_exists_def)

lemma quiet_shutil_copy [quiet_intros]: "quiet (shutil_copy a b)"
  by (rule quiet_fs_only)
    (auto simp: shutil_copy_def Let_def intro: state_fs_same split: option.split node.split)

lemma quiet_getenv_required [quiet_intros]: "quiet (getenv_required env n)"
  by (simp add: quiet_def getenv_required_def split: option.split)

lemma quiet_working_directory_name_prefix [quiet_intros]: "quiet working_directory_name_prefix"
  by (simp add: quiet_def working_directory_name_prefix_run)

lemma quiet_write_bash_header [quiet_intros]: "quiet (write_bash_header env p)"
  unfolding write_bash_header_def Let_def by (intro quiet_intros)

lemma quiet_names [quiet_intros]:
  "quiet working_directory_name" "quiet check_data_directory_name"
  "quiet mark_completion_directory_name" "quiet scan_part" "quiet scripts_start_name"
  "quiet get_data_job_script_name" "quiet put_data_script_name" "quiet clean_data_script_name"
  "quiet process_data_job_script_name" "quiet check_data_job_script_name"
  "quiet mark_no_longer_running_script_name" "quiet get_data_program_path"
  "quiet check_data_program_path" "quiet mark_running_status_program_path"
  "quiet output_resource_name" "quiet freesurfer_assessor_script_name"
  unfolding working_directory_name_def check_data_directory_name_def
    mark_completion_directory_name_def scan_part_def scripts_start_name_def
    get_data_job_script_name_def put_data_script_name_def clean_data_script_name_def
    process_data_job_script_name_def check_data_job_script_name_def
    mark_no_longer_running_script_name_def get_data_program_path_def
    check_data_program_path_def mark_running_status_program_path_def
    output_resource_name_def freesurfer_assessor_script_name_def
  by (intro quiet_intros)+

lemma quiet_getters [quiet_intros]:
  "quiet (get_xnat_pbs_setup_script_path env)"
  "quiet (get_xnat_pbs_setup_script_singularity_version env)"
  "quiet (get_xnat_pbs_setup_script_singularity_container_path env)"
  "quiet (get_xnat_pbs_setup_script_singularity_container_xnat_path env)"
  "quiet (get_xnat_pbs_setup_script_singularity_bind_path env)"
  "quiet (get_xnat_pbs_setup_script_singularity_qunexrun_path env)"
  "quiet (get_xnat_pbs_setup_script_singularity_qunexparameter_path env)"
  "quiet (get_xnat_pbs_setup_script_gradient_coefficient_path env)"
  "quiet (get_xnat_pbs_setup_script_archive_root env)"
  "quiet (get_db_name env)"
  unfolding get_xnat_pbs_setup_script_path_def
    get_xnat_pbs_setup_script_singularity_version_def
    get_xnat_pbs_setup_script_singularity_container_path_def
    get_xnat_pbs_setup_script_singularity_container_xnat_path_def
    get_xnat_pbs_setup_script_singularity_bind_path_def
    get_xnat_pbs_setup_script_singularity_qunexrun_path_def
    get_xnat_pbs_setup_script_singularity_qunexparameter_path_def
    get_xnat_pbs_setup_script_gradient_coefficient_path_def
    get_xnat_pbs_setup_script_archive_root_def get_db_name_def
  by (intro quiet_intros)+

lemma quiet_create_get_data_job_script: "quiet (create_get_data_job_script env)"
  unfolding create_get_data_job_script_def by (intro quiet_intros)

lemma quiet_create_put_data_script: "quiet (create_put_data_script env)"
  unfolding create_put_data_script_def by (intro quiet_intros)

lemma quiet_create_clean_data_script: "quiet (create_clean_data_script env)"
  unfolding create_clean_data_script_def by (intro quiet_intros)

lemma quiet_create_check_data_job_script: "quiet (create_check_data_job_script env)"
  unfolding create_check_data_job_script_def by (intro quiet_intros)

lemma quiet_create_mark_no_longer_running_script:
  "quiet (create_mark_no_longer_running_script env)"
  unfolding create_mark_no_longer_running_script_def by (intro quiet_intros)

lemma quiet_structural_create_get_data_job_script:
  "quiet (structural_create_get_data_job_script env)"
  unfolding structural_create_get_data_job_script_def by (intro quiet_intros)

lemma quiet_create_process_data_job_script: "quiet (create_process_data_job_script env)"
  unfolding create_process_data_job_script_def Let_def by (intro quiet_intros)

lemma quiet_create_freesurfer_assessor_script: "quiet (create_freesurfer_assessor_script env)"
  unfolding create_freesurfer_assessor_script_def Let_def by (intro quiet_intros)

lemma quiet_create_scripts: "quiet (create_scripts env stage)"
  unfolding create_scripts_def
  by (intro quiet_intros quiet_structural_create_get_data_job_script
      quiet_create_process_data_job_script quiet_create_clean_data_script
      quiet_create_put_data_script quiet_create_check_data_job_script
      quiet_create_mark_no_longer_running_script)

lemma quiet_structural_create_scripts: "quiet (structural_create_scripts env stage)"
  unfolding structural_create_scripts_def
  by (intro quiet_intros quiet_create_scripts quiet_create_freesurfer_assessor_script)

text \<open>
  Claim C10. In the base submitter each submit operation returns either \<open>(None, None)\<close>,
  exactly when the requested stage is below its own, or a pair \<open>(j, [j])\<close>; when it returns
  nothing it has raised the \<open>CalledProcessError\<close> of its \<open>qsub\<close> call. The operation for the
  mark-complete job has no gate and never returns \<open>(None, None)\<close>.
\<close>

theorem submit_result_shape:
  "gated_result (stage_ge stage GET_DATA) (fst (submit_get_data_jobs env stage prior st)) \<and>
   gated_result (stage_ge stage PROCESS_DATA) (fst (submit_process_data_jobs env stage prior st)) \<and>
   gated_result (stage_ge stage CLEAN_DATA) (fst (submit_clean_data_jobs env stage prior st)) \<and>
   gated_result (stage_ge stage PUT_DATA) (fst (submit_put_data_jobs env stage prior st)) \<and>
   gated_result (stage_ge stage CHECK_DATA) (fst (submit_check_jobs env stage prior st)) \<and>
   gated_result True (fst (submit_no_longer_running_jobs env stage prior st))"
  by (intro conjI)
    (simp_all add: submit_runs gated_result_qsub_step, simp_all add: gated_result_def)

text \<open>
  Claim C5. For every requested stage and every value of the prior job, each submit
  operation runs at most one command. A gated operation runs none below its stage. The
  command is \<open>qsub\<close> followed by the script when there is no prior job (\<open>None\<close> or the
  empty string, both false in the test \<open>if prior_job\<close>). With a prior job it declares a
  dependency on it, in mode \<open>afterok\<close> for the five gated operations and in mode
  \<open>afterany\<close> for the mark-complete operation, which has no gate.
\<close>

theorem dependency_modes:
  "(let submit = (\<lambda>mode script.
            case prior of
              None \<Rightarrow> ''qsub '' @ script
            | Some p \<Rightarrow>
                if p = [] then ''qsub '' @ script
                else ''qsub -W depend='' @ mode @ '':'' @ p @ '' '' @ script)
    in commands_run (submit_get_data_jobs env stage prior) st =
         (if stage_ge stage GET_DATA
          then [submit ''afterok'' (name_of get_data_job_script_name st)] else []) \<and>
       commands_run (submit_process_data_jobs env stage prior) st =
         (if stage_ge stage PROCESS_DATA
          then [submit ''afterok'' (name_of process_data_job_script_name st)] else []) \<and>
       commands_run (submit_clean_data_jobs env stage prior) st =
         (if stage_ge stage CLEAN_DATA
          then [submit ''afterok'' (name_of clean_data_script_name st)] else []) \<and>
       commands_run (submit_put_data_jobs env stage prior) st =
         (if stage_ge stage PUT_DATA
          then [submit ''afterok'' (name_of put_data_script_name st)] else []) \<and>
       commands_run (submit_check_jobs env stage prior) st =
         (if stage_ge stage CHECK_DATA
          then [submit ''afterok'' (name_of check_data_job_script_name st)] else []) \<and>
       commands_run (submit_no_longer_running_jobs env stage prior) st =
         [submit ''afterany'' (name_of mark_no_longer_running_script_name st)])"
  unfolding Let_def
  by (intro conjI)
    (simp_all add: commands_run_def new_events_def submit_runs name_of_scripts qsub_cmd_def
      if_truthy_def qsub_step_def Let_def split: option.split)

theorem dependency_modes_witness:
  "commands_run (submit_put_data_jobs (example_env (\<lambda>tr cmd. (0, ''8''))) CHECK_DATA (Some ''7''))
     example_state =
     [''qsub -W depend=afterok:7 '' @ name_of put_data_script_name example_state] \<and>
   commands_run (submit_no_longer_running_jobs (example_env (\<lambda>tr cmd. (0, ''8''))) CHECK_DATA
     (Some ''7'')) example_state =
     [''qsub -W depend=afterany:7 '' @ name_of mark_no_longer_running_script_name example_state] \<and>
   commands_run (submit_no_longer_running_jobs (example_env (\<lambda>tr cmd. (0, ''8''))) PREPARE_SCRIPTS
     None) example_state =
     [''qsub '' @ name_of mark_no_longer_running_script_name example_state] \<and>
   commands_run (submit_get_data_jobs (example_env (\<lambda>tr cmd. (0, ''8''))) CHECK_DATA (Some []))
     example_state =
     [''qsub '' @ name_of get_data_job_script_name example_state]"
  using dependency_modes [of "Some ''7''" "example_env (\<lambda>tr cmd. (0, ''8''))" CHECK_DATA
      example_state]
    dependency_modes [of None "example_env (\<lambda>tr cmd. (0, ''8''))" PREPARE_SCRIPTS example_state]
    dependency_modes [of "Some []" "example_env (\<lambda>tr cmd. (0, ''8''))" CHECK_DATA example_state]
  by (simp add: stage_ge_def Let_def)

text \<open>
  Claim C6. The working directory name prefix is built on the first read and stored: a
  second read of the working directory name, and of the check-data and mark-completion
  directory names, at any later clock value \<open>t\<close> returns the same string as a read in the
  first state, and leaves the instance as it is.
\<close>

theorem working_directory_name_computed_once:
  "(\<exists>n. fst (working_directory_name st) = Inr n) \<and>
   fst (working_directory_name ((snd (working_directory_name st))\<lparr>clock := t\<rparr>)) =
     fst (working_directory_name st) \<and>
   fst (check_data_directory_name ((snd (working_directory_name st))\<lparr>clock := t\<rparr>)) =
     fst (check_data_directory_name st) \<and>
   fst (mark_completion_directory_name ((snd (working_directory_name st))\<lparr>clock := t\<rparr>)) =
     fst (mark_completion_directory_name st) \<and>
   snd (working_directory_name ((snd (working_directory_name st))\<lparr>clock := t\<rparr>)) =
     (snd (working_directory_name st))\<lparr>clock := t\<rparr>"
proof -
  let ?s = "(memoized st)\<lparr>clock := t\<rparr>"
  have memo: "priv_working_directory_name_prefix (self ?s) = Some (prefix_value st)"
    by (simp add: memo_memoized)
  have m: "memoized ?s = ?s" using memo by (rule memoized_fixed)
  have p: "prefix_value ?s = prefix_value st" using memo by (rule prefix_value_fixed)
  show ?thesis
    by (simp add: working_directory_name_run check_data_directory_name_run
        mark_completion_directory_name_run m p)
qed

end
